theory Spec2Isabelle
  imports Complex_Main "HOL-Library.AList" "HOL-Library.Char_ord" "HOL-Library.List_Lexorder"
begin

section \<open>Python strings\<close>

text \<open>
  Strings are modelled as byte strings restricted to ASCII: \<open>str.lower\<close> maps the
  letters A to Z, \<open>str.strip\<close> removes the ASCII white space of Python
  (tab, line feed, vertical tab, form feed, carriage return, the four separators
  0x1c to 0x1f and the space) at both ends.
\<close>

definition upper_letters :: string where
  "upper_letters = ''ABCDEFGHIJKLMNOPQRSTUVWXYZ''"

definition lower_letters :: string where
  "lower_letters = ''abcdefghijklmnopqrstuvwxyz''"

definition lower_char :: "char \<Rightarrow> char" where
  "lower_char c = (case map_of (zip upper_letters lower_letters) c of Some d \<Rightarrow> d | None \<Rightarrow> c)"

definition py_lower :: "string \<Rightarrow> string" where
  "py_lower s = map lower_char s"

definition py_whitespace :: "char list" where
  "py_whitespace = [CHR 0x09, CHR 0x0A, CHR 0x0B, CHR 0x0C, CHR 0x0D,
                    CHR 0x1C, CHR 0x1D, CHR 0x1E, CHR 0x1F, CHR 0x20]"

definition is_space :: "char \<Rightarrow> bool" where
  "is_space c = (c \<in> set py_whitespace)"

definition py_lstrip :: "string \<Rightarrow> string" where
  "py_lstrip s = dropWhile is_space s"

definition py_strip :: "string \<Rightarrow> string" where
  "py_strip s = rev (py_lstrip (rev (py_lstrip s)))"

definition py_replace_char :: "char \<Rightarrow> char \<Rightarrow> string \<Rightarrow> string" where
  "py_replace_char old new s = map (\<lambda>c. if c = old then new else c) s"

text \<open>Decimal digits of a number, for \<open>str\<close> and for formatted messages.\<close>

definition digit_char :: "nat \<Rightarrow> char" where
  "digit_char d = ''0123456789'' ! d"

fun show_nat :: "nat \<Rightarrow> string" where
  "show_nat n = (if n < 10 then [digit_char n] else show_nat (n div 10) @ [digit_char (n mod 10)])"

declare show_nat.simps [simp del]

definition show_int :: "int \<Rightarrow> string" where
  "show_int i = (if i < 0 then CHR ''-'' # show_nat (nat (- i)) else show_nat (nat i))"

section \<open>Python values\<close>

text \<open>
  The values that travel through the dictionaries of the program: the JSON bodies of the
  upstream API, the search payloads, the mapped postings and the stored documents. A
  \<open>datetime\<close> is a point on an integer time line. A dictionary is an association list
  in insertion order, read with \<open>map_of\<close>.
\<close>

datatype pyval =
    PNone
  | PBool bool
  | PInt int
  | PStr string
  | PTime int
  | PList "pyval list"
  | PDict "(string \<times> pyval) list"

type_synonym py_dict = "(string \<times> pyval) list"

text \<open>Truth value testing, as \<open>if x\<close>, \<open>not x\<close> and \<open>x or y\<close> do it.\<close>

fun truthy :: "pyval \<Rightarrow> bool" where
  "truthy PNone = False"
| "truthy (PBool b) = b"
| "truthy (PInt i) = (i \<noteq> 0)"
| "truthy (PStr s) = (s \<noteq> [])"
| "truthy (PTime t) = True"
| "truthy (PList xs) = (xs \<noteq> [])"
| "truthy (PDict d) = (d \<noteq> [])"

definition py_or :: "pyval \<Rightarrow> pyval \<Rightarrow> pyval" where
  "py_or a b = (if truthy a then a else b)"

definition dict_has :: "py_dict \<Rightarrow> string \<Rightarrow> bool" where
  "dict_has d k = (map_of d k \<noteq> None)"

definition dict_get :: "py_dict \<Rightarrow> string \<Rightarrow> pyval" where
  "dict_get d k = (case map_of d k of Some v \<Rightarrow> v | None \<Rightarrow> PNone)"

definition dict_get_default :: "py_dict \<Rightarrow> string \<Rightarrow> pyval \<Rightarrow> pyval" where
  "dict_get_default d k dflt = (case map_of d k of Some v \<Rightarrow> v | None \<Rightarrow> dflt)"

definition dict_set :: "py_dict \<Rightarrow> string \<Rightarrow> pyval \<Rightarrow> py_dict" where
  "dict_set d k v = AList.update k v d"

definition dict_setdefault :: "py_dict \<Rightarrow> string \<Rightarrow> pyval \<Rightarrow> py_dict" where
  "dict_setdefault d k v = (if dict_has d k then d else dict_set d k v)"

section \<open>Errors, settings and the outside world\<close>

text \<open>
  Every exception of the modelled code is a value. \<open>TheirStackAuthenticationError\<close> and
  \<open>TheirStackRetryableError\<close> are subclasses of \<open>TheirStackClientError\<close>; the handlers
  of the program name one of the two subclasses or catch everything, so the constructors
  are kept apart.
\<close>

datatype error =
    ValueError string
  | TheirStackClientError string
  | TheirStackAuthenticationError string
  | TheirStackRetryableError string
  | ValidationError
  | AttributeError
  | TypeError
  | DuplicateKeyError

text \<open>The two settings of \<open>core/config.py\<close> that the modelled code reads.\<close>

record settings =
  their_stack_max_retries :: nat
  max_jobs_per_search :: int

text \<open>
  What one \<open>client.post\<close> can do: fail in the transport (\<open>httpx.RequestError\<close>) or
  return a response with a status code, a text and, when the text is JSON, its value.
\<close>

datatype response = Response (status_code: nat) (response_text: string) (json_body: "pyval option")

datatype outcome = RequestError string | Answered response

text \<open>
  The effects of the program are recorded in a state: the documents of the
  \<open>job_postings\<close> collection in natural order, the number of clock readings made, the
  requests posted so far and the back-off waits slept so far (in seconds).
\<close>

record world =
  store :: "py_dict list"
  ticks :: nat
  requests :: "(string \<times> py_dict) list"
  sleeps :: "nat list"

text \<open>
  What the program does not decide is a parameter: the settings, the answer of the
  transport to the \<open>n\<close>-th request (which may depend on the request), the value of the
  \<open>n\<close>-th reading of \<open>datetime.utcnow\<close>, the validation that the pydantic constructor
  of \<open>JobPosting\<close> applies to its keyword arguments, \<open>datetime.fromisoformat\<close>, and
  \<open>str\<close> on containers and datetimes.
\<close>

record env =
  cfg :: settings
  transport :: "nat \<Rightarrow> string \<Rightarrow> py_dict \<Rightarrow> outcome"
  utcnow_at :: "nat \<Rightarrow> int"
  validate :: "py_dict \<Rightarrow> bool"
  fromisoformat :: "string \<Rightarrow> int option"
  repr_other :: "pyval \<Rightarrow> string"

definition utcnow :: "env \<Rightarrow> world \<Rightarrow> int \<times> world" where
  "utcnow E w = (utcnow_at E (ticks w), w\<lparr>ticks := ticks w + 1\<rparr>)"

text \<open>\<open>str(x)\<close>\<close>

definition py_str :: "env \<Rightarrow> pyval \<Rightarrow> string" where
  "py_str E v =
     (case v of
        PStr s \<Rightarrow> s
      | PInt i \<Rightarrow> show_int i
      | PBool b \<Rightarrow> (if b then ''True'' else ''False'')
      | PNone \<Rightarrow> ''None''
      | _ \<Rightarrow> repr_other E v)"

section \<open>TheirStackClient\<close>

text \<open>\<open>_validate_payload\<close>\<close>

definition date_filter_keys :: "string list" where
  "date_filter_keys = [''posted_at_max_age_days'', ''posted_at_gte'', ''posted_at_lte'']"

definition validate_payload :: "py_dict \<Rightarrow> error + unit" where
  "validate_payload payload =
     (if payload = [] then Inl (ValueError ''Payload must not be empty'')
      else if \<not> list_ex (\<lambda>key. dict_has payload key \<and> dict_get payload key \<noteq> PNone) date_filter_keys
      then Inl (ValueError ''Payload must include one of posted_at_max_age_days or posted_at_gte/lte'')
      else Inr ())"

text \<open>
  The body of \<open>_post_with_retry\<close>: one request, and the classification of its outcome.
\<close>

definition classify :: "outcome \<Rightarrow> error + response" where
  "classify out =
     (case out of
        RequestError msg \<Rightarrow> Inl (TheirStackRetryableError msg)
      | Answered r \<Rightarrow>
          if status_code r = 401 \<or> status_code r = 403
            then Inl (TheirStackAuthenticationError (response_text r))
          else if status_code r = 429 \<or> (500 \<le> status_code r \<and> status_code r < 600)
            then Inl (TheirStackRetryableError (response_text r))
          else if 400 \<le> status_code r \<and> status_code r < 500
            then Inl (TheirStackClientError
                       (''Client error '' @ show_nat (status_code r) @ '': '' @ response_text r))
          else Inr r)"

definition post_once :: "env \<Rightarrow> string \<Rightarrow> py_dict \<Rightarrow> world \<Rightarrow> (error + response) \<times> world" where
  "post_once E endpoint json w =
     (classify (transport E (length (requests w)) endpoint json),
      w\<lparr>requests := requests w @ [(endpoint, json)]\<rparr>)"

text \<open>
  The decorator \<open>@retry(reraise=True, stop=stop_after_attempt(n),
  wait=wait_exponential(multiplier=1, min=1, max=10),
  retry=retry_if_exception_type(TheirStackRetryableError))\<close> of the tenacity library, with
  \<open>n = settings.their_stack_max_retries\<close>: attempts are numbered from 1; an attempt that
  raises a retryable error is the last one when its number has reached \<open>n\<close>, and its
  error is raised again; otherwise the call sleeps
  \<open>max(min, min(multiplier * 2 ** (attempt - 1), max))\<close> seconds and tries again. Any
  other exception and any result leave the loop at once.
\<close>

definition wait_exponential :: "nat \<Rightarrow> nat \<Rightarrow> nat \<Rightarrow> nat \<Rightarrow> nat" where
  "wait_exponential multiplier lo hi attempt_number =
     max lo (min (multiplier * 2 ^ (attempt_number - 1)) hi)"

function retrying :: "env \<Rightarrow> string \<Rightarrow> py_dict \<Rightarrow> nat \<Rightarrow> world \<Rightarrow> (error + response) \<times> world" where
  "retrying E endpoint json attempt_number w =
     (case post_once E endpoint json w of
        (Inl (TheirStackRetryableError msg), w') \<Rightarrow>
          if attempt_number \<ge> their_stack_max_retries (cfg E)
            then (Inl (TheirStackRetryableError msg), w')
          else retrying E endpoint json (attempt_number + 1)
                 (w'\<lparr>sleeps := sleeps w' @ [wait_exponential 1 1 10 attempt_number]\<rparr>)
      | (r, w') \<Rightarrow> (r, w'))"
  by pat_completeness auto
termination
  by (relation "measure (\<lambda>(E, endpoint, json, attempt_number, w).
                  their_stack_max_retries (cfg E) - attempt_number)") auto

declare retrying.simps [simp del]

definition post_with_retry :: "env \<Rightarrow> string \<Rightarrow> py_dict \<Rightarrow> world \<Rightarrow> (error + response) \<times> world" where
  "post_with_retry E endpoint json w = retrying E endpoint json 1 w"

text \<open>
  \<open>search_jobs\<close>. The instance attribute \<open>_max_retries\<close> of the client appears only in
  a log message; the number of attempts is the one fixed in the decorator. The payload
  is changed in place before it is sent (\<open>pagination_defaults\<close> is the block under
  "Ensure pagination defaults"), so the request recorded in the state is the payload
  the caller holds afterwards.
\<close>

definition pagination_defaults :: "settings \<Rightarrow> py_dict \<Rightarrow> py_dict" where
  "pagination_defaults S payload =
     (let payload1 = (if \<not> dict_has payload ''page'' \<and> \<not> dict_has payload ''offset''
                      then dict_setdefault payload ''page'' (PInt 1) else payload)
      in dict_setdefault payload1 ''limit'' (PInt (max_jobs_per_search S)))"

definition search_jobs :: "env \<Rightarrow> py_dict \<Rightarrow> world \<Rightarrow> (error + pyval) \<times> world" where
  "search_jobs E payload w =
     (case validate_payload payload of
        Inl e \<Rightarrow> (Inl e, w)
      | Inr _ \<Rightarrow>
          (case post_with_retry E ''/v1/jobs/search'' (pagination_defaults (cfg E) payload) w of
             (Inl (TheirStackAuthenticationError msg), w') \<Rightarrow>
               (Inl (TheirStackAuthenticationError ''Failed to authenticate with TheirStack API''), w')
           | (Inl e, w') \<Rightarrow> (Inl e, w')
           | (Inr r, w') \<Rightarrow>
               (case json_body r of
                  None \<Rightarrow> (Inl (TheirStackClientError ''Invalid JSON response from TheirStack''), w')
                | Some data \<Rightarrow> (Inr data, w'))))"

text \<open>
  Vocabulary for the statements about the client: the requests posted between two
  states, the \<open>limit\<close> each of them carried, and the number of attempts that
  followed the first.
\<close>

definition new_requests :: "world \<Rightarrow> world \<Rightarrow> (string \<times> py_dict) list" where
  "new_requests w w' = drop (length (requests w)) (requests w')"

definition sent_limits :: "world \<Rightarrow> world \<Rightarrow> pyval list" where
  "sent_limits w w' = map (\<lambda>(endpoint, json). dict_get json ''limit'') (new_requests w w')"


definition world0 :: world where
  "world0 = \<lparr> store = [], ticks = 0, requests = [], sleeps = [] \<rparr>"

section \<open>SkillExtractor.map_technology_slugs\<close>

text \<open>
  The two class-level tables of \<open>skill_extractor.py\<close>, in source order. The five keys
  that the literal of \<open>TECHNOLOGY_SLUG_MAP\<close> repeats (kotlin, swift, terraform, power-bi,
  microsoft-azure) carry the same value both times, so the first binding that
  \<open>map_of\<close> finds is the binding of the Python dict.
\<close>

definition SKILL_CANONICAL_MAP :: "(string \<times> string) list" where
  "SKILL_CANONICAL_MAP = [
   (''cpp'', ''c++''), (''csharp'', ''c#''), (''dotnet'', ''.net''), (''aspnet'', ''asp.net''),
    (''sqlserver'', ''sql server''), (''node-js'', ''nodejs''), (''js'', ''javascript''),
    (''ts'', ''typescript'')]"

definition TECHNOLOGY_SLUG_MAP :: "(string \<times> string) list" where
  "TECHNOLOGY_SLUG_MAP = [
   (''react'', ''react''), (''reactjs'', ''react''), (''react-js'', ''react''),
    (''vue-js'', ''vue''), (''vuejs'', ''vue''), (''angular'', ''angular''),
    (''angularjs'', ''angular''), (''nextjs'', ''next.js''), (''next-js'', ''next.js''),
    (''nuxtjs'', ''nuxt.js''), (''nuxt-js'', ''nuxt.js''), (''nodejs'', ''nodejs''),
    (''node-js'', ''nodejs''), (''expressjs'', ''express''), (''express-js'', ''express''),
    (''nestjs'', ''nestjs''), (''django'', ''django''), (''flask'', ''flask''),
    (''fastapi'', ''fastapi''), (''spring'', ''spring''), (''spring-boot'', ''spring boot''),
    (''laravel'', ''laravel''), (''rails'', ''rails''), (''dotnet'', ''.net''),
    (''csharp'', ''c#''), (''cpp'', ''c++''), (''cplusplus'', ''c++''), (''java'', ''java''),
    (''python'', ''python''), (''go'', ''go''), (''golang'', ''go''), (''rust'', ''rust''),
    (''kotlin'', ''kotlin''), (''swift'', ''swift''), (''sql'', ''sql''),
    (''mysql'', ''mysql''), (''postgresql'', ''postgresql''), (''postgres'', ''postgresql''),
    (''mongodb'', ''mongodb''), (''dynamodb'', ''dynamodb''), (''redis'', ''redis''),
    (''elasticsearch'', ''elasticsearch''), (''snowflake'', ''snowflake''),
    (''bigquery'', ''bigquery''), (''redshift'', ''redshift''), (''aws'', ''aws''),
    (''amazon-web-services'', ''aws''), (''aws-lambda'', ''aws lambda''),
    (''aws-step-functions'', ''aws step functions''), (''amazon-api-gateway'', ''api gateway''),
    (''amazon-ecs'', ''aws ecs''), (''amazon-s3'', ''aws s3''), (''azure'', ''azure''),
    (''microsoft-azure'', ''azure''), (''gcp'', ''gcp''), (''google-cloud-platform'', ''gcp''),
    (''kubernetes'', ''kubernetes''), (''docker'', ''docker''), (''terraform'', ''terraform''),
    (''ansible'', ''ansible''), (''jenkins'', ''jenkins''),
    (''github-actions'', ''github actions''), (''github'', ''github''),
    (''gitlab'', ''gitlab''), (''gitlab-ci'', ''gitlab ci''), (''ci-cd'', ''ci/cd''),
    (''celery'', ''celery''), (''rabbitmq'', ''rabbitmq''), (''kafka'', ''kafka''),
    (''tensorflow'', ''tensorflow''), (''pytorch'', ''pytorch''),
    (''scikit-learn'', ''scikit-learn''), (''nlp'', ''natural language processing''),
    (''ml'', ''machine learning''), (''ai'', ''artificial intelligence''),
    (''power-bi'', ''power bi''), (''tableau'', ''tableau''), (''looker'', ''looker''),
    (''cypress'', ''cypress''), (''selenium'', ''selenium''), (''postman'', ''postman''),
    (''jest'', ''jest''), (''pytest'', ''pytest''), (''junit'', ''junit''),
    (''gradle'', ''gradle''), (''maven'', ''maven''), (''unity-3d'', ''unity''),
    (''databricks'', ''databricks''), (''delta-lake'', ''delta lake''),
    (''apache-spark-sql'', ''spark''), (''spark'', ''spark''), (''sidekiq'', ''sidekiq''),
    (''netsuite'', ''netsuite''), (''phrase'', ''phrase''), (''greenhouse'', ''greenhouse''),
    (''workday'', ''workday''), (''confluence'', ''confluence''), (''jira'', ''jira''),
    (''lever'', ''lever''), (''xml-format'', ''xml''), (''json'', ''json''),
    (''axios'', ''axios''), (''enzyme'', ''enzyme''), (''jasmine'', ''jasmine''),
    (''karma-runner'', ''karma''), (''casperjs'', ''casperjs''),
    (''versionone'', ''versionone''), (''bootstrap'', ''bootstrap''), (''sass'', ''sass''),
    (''serverless'', ''serverless''), (''php'', ''php''), (''perl'', ''perl''),
    (''ruby'', ''ruby''), (''javascript'', ''javascript''), (''typescript'', ''typescript''),
    (''microsoft-typescript'', ''typescript''), (''mariadb'', ''mariadb''),
    (''cassandra'', ''cassandra''), (''apache-cassandra'', ''cassandra''),
    (''clickhouse'', ''clickhouse''), (''grafana'', ''grafana''), (''kibana'', ''kibana''),
    (''superset'', ''superset''), (''d3'', ''d3''), (''mabl'', ''mabl''),
    (''playwright'', ''playwright''), (''ios'', ''ios''), (''swift'', ''swift''),
    (''turning'', ''swift''), (''kotlin'', ''kotlin''), (''solidworks'', ''solidworks''),
    (''sap'', ''sap''), (''forge'', ''forge''), (''vast-data'', ''vast''),
    (''component'', ''react''), (''event-hub'', ''event hubs''),
    (''azure-service-bus'', ''azure service bus''), (''azure-storage'', ''azure storage''),
    (''azure-sql-database'', ''azure sql''), (''azure-synapse'', ''azure synapse''),
    (''azure-synapse-analytics'', ''azure synapse''),
    (''microsoft-azure-storage'', ''azure storage''),
    (''microsoft-power-apps'', ''power apps''), (''power-bi'', ''power bi''),
    (''microsoft-dynamics-365-business-central'', ''dynamics 365''),
    (''microsoft-power-platform'', ''power platform''), (''microsoft-azure'', ''azure''),
    (''microsoft-azure-logic-apps'', ''azure logic apps''),
    (''azure-devops'', ''azure devops''), (''dynamics-crm'', ''dynamics crm''),
    (''terraform'', ''terraform''), (''powershell'', ''powershell''),
    (''aws-data-lake-storage'', ''aws data lake''),
    (''google-cloud-storage'', ''google cloud storage''),
    (''aws-codepipeline'', ''aws codepipeline''), (''spring-data'', ''spring data''),
    (''spring-security'', ''spring security''), (''spring-cloud'', ''spring cloud''),
    (''hibernate'', ''hibernate'')]"

text \<open>One iteration of the loop body: \<open>None\<close> is \<open>continue\<close>.\<close>

definition map_slug :: "string \<Rightarrow> string option" where
  "map_slug slug =
     (if slug = [] then None
      else let slug_normalized = py_lower (py_strip slug) in
        if slug_normalized = [] then None
        else let looked = map_of TECHNOLOGY_SLUG_MAP slug_normalized;
                 canonical = (case looked of
                                Some c \<Rightarrow> if c \<noteq> [] then c
                                          else py_replace_char (CHR ''_'') (CHR '' '')
                                                 (py_replace_char (CHR ''-'') (CHR '' '') slug_normalized)
                              | None \<Rightarrow> py_replace_char (CHR ''_'') (CHR '' '')
                                          (py_replace_char (CHR ''-'') (CHR '' '') slug_normalized))
             in Some (case map_of SKILL_CANONICAL_MAP canonical of Some c \<Rightarrow> c | None \<Rightarrow> canonical))"

text \<open>
  \<open>mapped\<close> is a Python set, returned through \<open>sorted\<close>: the distinct elements in
  ascending code-point order.
\<close>

definition map_technology_slugs :: "string list option \<Rightarrow> string list" where
  "map_technology_slugs slugs =
     (case slugs of
        None \<Rightarrow> []
      | Some xs \<Rightarrow> if xs = [] then [] else sort (remdups (List.map_filter map_slug xs)))"

section \<open>gap_service.compute_user_coverage\<close>

text \<open>
  Python computes the percentages in binary floating point. The operations it uses are
  parameters of the model, so that every statement below holds for the IEEE operations
  as it does for exact arithmetic: \<open>true_div\<close> is \<open>/\<close> on two integers,
  \<open>fl_mul\<close> the product, \<open>fl_of_int\<close> the conversion of an integer operand or
  literal, \<open>fl_ge\<close> the comparison \<open>>=\<close> and \<open>fl_round2\<close> is \<open>round(x, 2)\<close>.
\<close>

record 'f float_ops =
  true_div :: "int \<Rightarrow> int \<Rightarrow> 'f"
  fl_mul :: "'f \<Rightarrow> 'f \<Rightarrow> 'f"
  fl_of_int :: "int \<Rightarrow> 'f"
  fl_ge :: "'f \<Rightarrow> 'f \<Rightarrow> bool"
  fl_round2 :: "'f \<Rightarrow> 'f"

text \<open>The exact rational operations, as one instance.\<close>

definition rat_ops :: "rat float_ops" where
  "rat_ops = \<lparr> true_div = (\<lambda>a b. of_int a / of_int b), fl_mul = (\<lambda>x y. x * y),
               fl_of_int = of_int, fl_ge = (\<lambda>x y. y \<le> x),
               fl_round2 = (\<lambda>x. of_int (round (x * 100)) / 100) \<rparr>"

text \<open>A number that is an \<open>int\<close> on one path and a \<open>float\<close> on another.\<close>

datatype 'f pynum = NInt int | NFloat 'f

text \<open>
  The dictionaries that \<open>get_role_required_skills\<close> builds, with their five keys (the
  skill is the \<open>_id\<close> of an aggregation group, any value), and the \<open>SkillGapItem\<close>
  of \<open>schemas/analytics.py\<close>.
\<close>

record 'f required_skill =
  rs_skill :: pyval
  rs_technology_slug :: pyval
  rs_count :: nat
  rs_percentage :: 'f
  rs_total_jobs :: nat

record 'f SkillGapItem =
  sg_skill :: string
  sg_required_percentage :: 'f
  sg_user_has :: bool

text \<open>\<open>[s.lower().strip() for s in user_skills if s and s.strip()]\<close>\<close>

definition normalize_user_skills :: "string list \<Rightarrow> string list" where
  "normalize_user_skills user_skills =
     map (\<lambda>s. py_strip (py_lower s)) (filter (\<lambda>s. s \<noteq> [] \<and> py_strip s \<noteq> []) user_skills)"

text \<open>\<open>str(req_skill.get("technology_slug") or req_skill["skill"]).lower().strip()\<close>\<close>

definition skill_name_of :: "env \<Rightarrow> ('f, 'a) required_skill_scheme \<Rightarrow> string" where
  "skill_name_of E req_skill =
     py_strip (py_lower (py_str E (py_or (rs_technology_slug req_skill) (rs_skill req_skill))))"

text \<open>\<open>any(user_skill.lower() == skill_name for user_skill in user_skills)\<close>\<close>

definition user_has_skill :: "string list \<Rightarrow> string \<Rightarrow> bool" where
  "user_has_skill user_skills skill_name = list_ex (\<lambda>user_skill. py_lower user_skill = skill_name) user_skills"

text \<open>
  The \<open>for req_skill in required_skills\<close> loop, with its three accumulators
  \<open>skill_gap_items\<close>, \<open>missing_skills\<close> and \<open>skills_have\<close>.
\<close>

fun coverage_loop ::
  "env \<Rightarrow> string list \<Rightarrow> 'f required_skill list \<Rightarrow> 'f SkillGapItem list \<times> string list \<times> nat
   \<Rightarrow> 'f SkillGapItem list \<times> string list \<times> nat" where
  "coverage_loop E user_skills [] acc = acc"
| "coverage_loop E user_skills (req_skill # rest) (skill_gap_items, missing_skills, skills_have) =
     (let skill_name = skill_name_of E req_skill;
          has = user_has_skill user_skills skill_name;
          item = \<lparr> sg_skill = skill_name, sg_required_percentage = rs_percentage req_skill,
                   sg_user_has = has \<rparr>
      in coverage_loop E user_skills rest
           (skill_gap_items @ [item],
            if \<not> has then missing_skills @ [skill_name] else missing_skills,
            if \<not> has then skills_have else skills_have + 1))"

definition compute_user_coverage ::
  "'f float_ops \<Rightarrow> env \<Rightarrow> string list \<Rightarrow> 'f required_skill list
   \<Rightarrow> 'f SkillGapItem list \<times> string list \<times> 'f pynum \<times> nat \<times> nat" where
  "compute_user_coverage F E user_skills required_skills =
     (if required_skills = [] then ([], [], NFloat (fl_of_int F 0), 0, 0)
      else
        let user_skills' = normalize_user_skills user_skills;
            (skill_gap_items, missing_skills, skills_have) =
               coverage_loop E user_skills' required_skills ([], [], 0);
            total_skills = length required_skills;
            coverage = (if total_skills > 0
                        then NFloat (fl_mul F (true_div F (int skills_have) (int total_skills))
                                             (fl_of_int F 100))
                        else NInt 0)
        in (skill_gap_items, missing_skills, coverage, skills_have, total_skills))"

text \<open>
  The comparison in the words of the specification: two skill names are equal up to case
  and surrounding white space, and the user possesses a required skill when one of the
  user's non-blank skills equals its name in that sense.
\<close>

definition ci_equal :: "string \<Rightarrow> string \<Rightarrow> bool" where
  "ci_equal a b = (py_lower (py_strip a) = py_lower (py_strip b))"

definition required_key :: "env \<Rightarrow> ('f, 'a) required_skill_scheme \<Rightarrow> string" where
  "required_key E r =
     py_str E (if truthy (rs_technology_slug r) then rs_technology_slug r else rs_skill r)"

definition user_possesses :: "env \<Rightarrow> string list \<Rightarrow> ('f, 'a) required_skill_scheme \<Rightarrow> bool" where
  "user_possesses E user_skills r =
     list_ex (\<lambda>u. py_strip u \<noteq> [] \<and> ci_equal u (required_key E r)) user_skills"

section \<open>JobPosting.upsert_job\<close>

text \<open>
  A stored document is the dictionary of its attributes; the collection is the list
  \<open>store\<close> of the state, and a document is identified by its position.

  \<open>find_one({key: value})\<close> is the first document whose field equals the value:
  \<open>List.extract\<close> returns it together with the documents before and after it.
\<close>

definition field_eq :: "string \<Rightarrow> pyval \<Rightarrow> py_dict \<Rightarrow> bool" where
  "field_eq key v doc = (map_of doc key = Some v)"

definition find_one :: "string \<Rightarrow> pyval \<Rightarrow> py_dict list \<Rightarrow> (py_dict list \<times> py_dict \<times> py_dict list) option" where
  "find_one key v docs = List.extract (field_eq key v) docs"

text \<open>
  \<open>Settings.indexes\<close> declares two unique indexes, which the database enforces on every
  write: \<open>save\<close> and \<open>insert\<close> raise \<open>DuplicateKeyError\<close>, and write nothing, when
  another document of the collection has the key of the written document in one of
  them. The index on \<open>url\<close> holds every document, one without the field under the key
  null. The index on \<open>job_id\<close> is sparse: it holds the documents that have the field,
  whatever its value, null included; the documents that \<open>JobPosting\<close> writes carry
  every field of the class.
\<close>

definition index_conflict :: "py_dict \<Rightarrow> py_dict \<Rightarrow> bool" where
  "index_conflict doc other =
     (dict_get other ''url'' = dict_get doc ''url'' \<or>
      (dict_has doc ''job_id'' \<and> map_of other ''job_id'' = map_of doc ''job_id''))"

definition duplicate_key :: "py_dict \<Rightarrow> py_dict list \<Rightarrow> bool" where
  "duplicate_key doc others = list_ex (index_conflict doc) others"

text \<open>
  The constructor \<open>cls(**job_data)\<close>: the fields that are declared with a default take
  it unless the keyword arguments give them, the two timestamps through their
  \<open>default_factory\<close>, which reads the clock. Whether pydantic accepts the arguments
  (the required fields, the declared types) is the parameter \<open>validate\<close>.
\<close>

definition field_defaults :: py_dict where
  "field_defaults =
     [(''skills'', PList []), (''job_id'', PNone), (''date_posted'', PNone),
      (''min_annual_salary_usd'', PNone), (''max_annual_salary_usd'', PNone), (''remote'', PNone),
      (''technology_slugs'', PList []), (''company_domain'', PNone), (''coordinates'', PNone)]"

definition default_now :: "env \<Rightarrow> py_dict \<Rightarrow> string \<Rightarrow> py_dict \<times> world \<Rightarrow> py_dict \<times> world" where
  "default_now E kwargs key dw =
     (if dict_has kwargs key then dw
      else let (now, w') = utcnow E (snd dw) in (dict_set (fst dw) key (PTime now), w'))"

definition JobPosting_init :: "env \<Rightarrow> py_dict \<Rightarrow> world \<Rightarrow> (error + py_dict) \<times> world" where
  "JobPosting_init E kwargs w =
     (if \<not> validate E kwargs then (Inl ValidationError, w)
      else
        let (defaults, w') = default_now E kwargs ''updated_at''
                               (default_now E kwargs ''scraped_at'' (field_defaults, w))
        in (Inr (fold (\<lambda>(key, value) doc. dict_set doc key value) kwargs defaults), w'))"

text \<open>
  The loop \<open>for key, value in job_data.items()\<close> that copies every entry but
  \<open>scraped_at\<close> onto the existing document.
\<close>

definition set_attributes :: "py_dict \<Rightarrow> py_dict \<Rightarrow> py_dict" where
  "set_attributes job_data existing_job =
     fold (\<lambda>(key, value) doc. if key = ''scraped_at'' then doc else dict_set doc key value)
       job_data existing_job"

text \<open>
  \<open>upsert_job\<close>. \<open>existing_job.save()\<close> replaces the document at its position and
  \<open>new_job.insert()\<close> adds one at the end, unless the write is refused.
\<close>

definition upsert_job :: "env \<Rightarrow> py_dict \<Rightarrow> world \<Rightarrow> (error + py_dict) \<times> world" where
  "upsert_job E job_data0 w0 =
     (let (now, w) = utcnow E w0;
          job_data = dict_set job_data0 ''updated_at'' (PTime now);
          job_id = dict_get job_data ''job_id'';
          url = dict_get job_data ''url'';
          by_job_id = (if truthy job_id then find_one ''job_id'' job_id (store w) else None);
          existing_job = (if by_job_id = None \<and> truthy url then find_one ''url'' url (store w)
                          else by_job_id)
      in case existing_job of
           Some (before, existing, after) \<Rightarrow>
             (let saved = set_attributes job_data existing
              in if duplicate_key saved (before @ after) then (Inl DuplicateKeyError, w)
                 else (Inr saved, w\<lparr>store := before @ [saved] @ after\<rparr>))
         | None \<Rightarrow>
             (case JobPosting_init E job_data w of
                (Inl e, w') \<Rightarrow> (Inl e, w')
              | (Inr new_job, w') \<Rightarrow>
                  if duplicate_key new_job (store w') then (Inl DuplicateKeyError, w')
                  else (Inr new_job, w'\<lparr>store := store w' @ [new_job]\<rparr>)))"

section \<open>JobCollectionService\<close>

text \<open>\<open>sub in s\<close> on strings, \<open>sep.join(xs)\<close> and \<open>s.replace("Z", "+00:00")\<close>.\<close>

fun py_in :: "string \<Rightarrow> string \<Rightarrow> bool" where
  "py_in sub [] = (sub = [])"
| "py_in sub (c # cs) = (take (length sub) (c # cs) = sub \<or> py_in sub cs)"

fun py_join :: "string \<Rightarrow> string list \<Rightarrow> string" where
  "py_join sep [] = []"
| "py_join sep [x] = x"
| "py_join sep (x # y # ys) = x @ sep @ py_join sep (y # ys)"

definition replace_Z :: "string \<Rightarrow> string" where
  "replace_Z s = concat (map (\<lambda>c. if c = CHR ''Z'' then ''+00:00'' else [c]) s)"

text \<open>
  \<open>_generate_role_variations\<close>: the original role, the variations of the first family
  whose key words occur in the lower-cased role, and the removal of duplicates up to
  case and surrounding white space, first occurrence kept.
\<close>

definition role_family :: "string \<Rightarrow> string list" where
  "role_family role_lower =
     (if py_in ''aws'' role_lower \<and> py_in ''architect'' role_lower then
        [''AWS Solutions Architect'', ''AWS Architect'', ''AWS Cloud Architect'',
         ''Cloud Solutions Architect'', ''Cloud Architect'', ''Solutions Architect'',
         ''AWS Certified Solutions Architect'']
      else if py_in ''solutions architect'' role_lower then
        [''Solutions Architect'', ''Cloud Solutions Architect'', ''Cloud Architect'',
         ''Technical Architect'']
      else if py_in ''backend'' role_lower then
        [''Backend'', ''Back-end Developer'', ''Back end Developer'', ''Backend Engineer'',
         ''Server-side Developer'']
      else if py_in ''frontend'' role_lower \<or> py_in ''front-end'' role_lower then
        [''Frontend'', ''Front-end Developer'', ''Front end Developer'', ''Frontend Engineer'',
         ''UI Developer'']
      else if py_in ''full stack'' role_lower \<or> py_in ''fullstack'' role_lower
              \<or> py_in ''full-stack'' role_lower then
        [''Full Stack'', ''Fullstack Developer'', ''Full-stack Developer'', ''Full Stack Engineer'',
         ''Fullstack Engineer'']
      else if py_in ''software engineer'' role_lower then
        [''Software Developer'', ''SDE'', ''Software Engineer'', ''Engineer'', ''Developer'']
      else if py_in ''data engineer'' role_lower then
        [''Data Engineer'', ''Big Data Engineer'', ''ETL Developer'', ''Data Pipeline Engineer'']
      else if py_in ''devops'' role_lower then
        [''DevOps'', ''DevOps Engineer'', ''SRE'', ''Site Reliability Engineer'',
         ''Platform Engineer'']
      else if py_in ''mobile'' role_lower then
        [''Mobile Developer'', ''Mobile Engineer'', ''iOS Developer'', ''Android Developer'',
         ''Mobile App Developer'']
      else if py_in ''ai engineer'' role_lower \<or> py_in ''ml engineer'' role_lower
              \<or> py_in ''machine learning'' role_lower then
        [''AI Engineer'', ''ML Engineer'', ''Machine Learning Engineer'', ''AI/ML Engineer'',
         ''Artificial Intelligence Engineer'']
      else if py_in ''data scientist'' role_lower then
        [''Data Scientist'', ''ML Scientist'', ''Research Scientist'']
      else if py_in ''cloud engineer'' role_lower then
        [''Cloud Engineer'', ''Cloud Architect'', ''Cloud Developer'']
      else if py_in ''qa'' role_lower \<or> py_in ''test'' role_lower \<or> py_in ''quality'' role_lower then
        [''QA Engineer'', ''Test Engineer'', ''QA Automation Engineer'', ''SDET'',
         ''Quality Engineer'']
      else if py_in ''product manager'' role_lower then
        [''Product Manager'', ''PM'', ''Product Owner'', ''Technical Product Manager'']
      else if py_in ''security'' role_lower then
        [''Security Engineer'', ''Cybersecurity Engineer'', ''InfoSec Engineer'',
         ''Security Analyst'']
      else [])"

fun unique_variations :: "string list \<Rightarrow> string list \<Rightarrow> string list" where
  "unique_variations seen [] = []"
| "unique_variations seen (var # rest) =
     (let var_normalized = py_strip (py_lower var)
      in if var_normalized \<noteq> [] \<and> var_normalized \<notin> set seen
         then var # unique_variations (var_normalized # seen) rest
         else unique_variations seen rest)"

definition generate_role_variations :: "string \<Rightarrow> string list" where
  "generate_role_variations role = unique_variations [] (role # role_family (py_lower role))"

text \<open>
  \<open>_should_skip_job\<close>. The title comes from the upstream job and is any value; calling
  \<open>lower\<close> on a truthy value that is not a string raises \<open>AttributeError\<close>.
\<close>

definition should_skip_job :: "string \<Rightarrow> pyval \<Rightarrow> error + bool" where
  "should_skip_job role job_title =
     (if \<not> truthy job_title then Inr False
      else case job_title of
             PStr title \<Rightarrow>
               Inr (py_in ''react'' (py_lower role) \<and> \<not> py_in ''native'' (py_lower role)
                    \<and> py_in ''react native'' (py_lower title))
           | _ \<Rightarrow> Inl AttributeError)"

text \<open>
  Iteration over a value (\<open>for x in v\<close>): the elements of a list, the keys of a
  dictionary, the characters of a string; other values are not iterable.
\<close>

definition py_iter :: "pyval \<Rightarrow> error + pyval list" where
  "py_iter v =
     (case v of
        PList xs \<Rightarrow> Inr xs
      | PDict d \<Rightarrow> Inr (map (\<lambda>(k, x). PStr k) d)
      | PStr s \<Rightarrow> Inr (map (\<lambda>c. PStr [c]) s)
      | _ \<Rightarrow> Inl TypeError)"

text \<open>\<open>v.get(key)\<close> on a value that should be a dictionary.\<close>

definition py_get :: "pyval \<Rightarrow> string \<Rightarrow> error + pyval" where
  "py_get v key = (case v of PDict d \<Rightarrow> Inr (dict_get d key) | _ \<Rightarrow> Inl AttributeError)"

text \<open>
  The call \<open>skill_extractor.map_technology_slugs(technology_slugs)\<close> on an upstream
  value: falsy elements are passed over, a truthy element that is not a string has no
  \<open>strip\<close>.
\<close>

fun slug_strings :: "pyval list \<Rightarrow> error + string list" where
  "slug_strings [] = Inr []"
| "slug_strings (x # xs) =
     (if \<not> truthy x then slug_strings xs
      else case x of
             PStr s \<Rightarrow> (case slug_strings xs of Inl e \<Rightarrow> Inl e | Inr ss \<Rightarrow> Inr (s # ss))
           | _ \<Rightarrow> Inl AttributeError)"

definition map_technology_slugs_value :: "pyval \<Rightarrow> error + string list" where
  "map_technology_slugs_value slugs =
     (if \<not> truthy slugs then Inr []
      else case py_iter slugs of
             Inl e \<Rightarrow> Inl e
           | Inr xs \<Rightarrow> (case slug_strings xs of
                          Inl e \<Rightarrow> Inl e
                        | Inr ss \<Rightarrow> Inr (map_technology_slugs (Some ss))))"

text \<open>The list \<open>locations_list\<close> of \<open>_map_job\<close> and the label joined from it.\<close>

fun location_items :: "pyval list \<Rightarrow> pyval list" where
  "location_items [] = []"
| "location_items (loc # rest) =
     (if \<not> truthy loc then location_items rest
      else case loc of
             PStr s \<Rightarrow> loc # location_items rest
           | PDict d \<Rightarrow>
               (let name = py_or (dict_get d ''name'')
                             (py_or (dict_get d ''city'')
                               (py_or (dict_get d ''state'') (dict_get d ''country'')))
                in if truthy name then name # location_items rest else location_items rest)
           | _ \<Rightarrow> location_items rest)"

definition locations_list :: "pyval \<Rightarrow> pyval list" where
  "locations_list locations =
     (case locations of
        PStr s \<Rightarrow> [locations]
      | PList xs \<Rightarrow> location_items xs
      | _ \<Rightarrow> [])"

definition parse_date_posted :: "env \<Rightarrow> pyval \<Rightarrow> pyval" where
  "parse_date_posted E date_posted =
     (case date_posted of
        PStr s \<Rightarrow> (case fromisoformat E (replace_Z s) of Some t \<Rightarrow> PTime t | None \<Rightarrow> PNone)
      | PTime t \<Rightarrow> PTime t
      | _ \<Rightarrow> PNone)"

text \<open>
  \<open>_map_job\<close>, in two parts: \<open>mapped_fields\<close> builds the dictionary \<open>mapped_job\<close>
  (reading the clock for \<open>scraped_at\<close>), and \<open>map_job\<close> returns it unless it has
  neither a url nor a \<open>job_id\<close>. \<open>None\<close> is the \<open>None\<close> of the source.
\<close>

definition mapped_fields ::
  "env \<Rightarrow> string \<Rightarrow> string \<Rightarrow> py_dict \<Rightarrow> world \<Rightarrow> (error + py_dict) \<times> world" where
  "mapped_fields E role search_location_label job w =
     (let description = py_or (dict_get job ''description'')
                          (py_or (dict_get job ''job_description'') (PStr []));
          technology_slugs = py_or (dict_get job ''technology_slugs'') (PList [])
      in case map_technology_slugs_value technology_slugs of
           Inl e \<Rightarrow> (Inl e, w)
         | Inr skills \<Rightarrow>
            (let company_obj = py_or (dict_get job ''company_object'') (PDict [])
             in case company_obj of
                  PDict company \<Rightarrow>
                    (let location_label =
                           py_join '', '' (map (py_str E)
                             (filter truthy (locations_list (py_or (dict_get job ''locations'') (PList [])))));
                         date_posted = parse_date_posted E
                                         (py_or (dict_get job ''posted_at'') (dict_get job ''date_posted''));
                         coordinates = py_or (dict_get job ''coordinates'') (dict_get job ''geo'');
                         job_id_raw = py_or (dict_get job ''job_id'') (dict_get job ''id'');
                         job_id_str = (if job_id_raw \<noteq> PNone then PStr (py_str E job_id_raw) else PNone);
                         (now, w') = utcnow E w
                     in (Inr
                          [(''job_id'', job_id_str),
                           (''title'', py_or (dict_get job ''job_title'')
                                         (py_or (dict_get job ''title'') (PStr role))),
                           (''company'', py_or (dict_get company ''name'')
                                           (py_or (dict_get job ''company'') (PStr ''Unknown Company''))),
                           (''company_domain'', py_or (dict_get company ''domain'')
                                                  (dict_get job ''company_domain'')),
                           (''location'', if location_label \<noteq> [] then PStr location_label
                                          else dict_get_default job ''location'' (PStr ''Unknown'')),
                           (''description'', description),
                           (''skills'', PList (map PStr skills)),
                           (''url'', py_or (dict_get job ''job_url'')
                                       (py_or (dict_get job ''url'') (dict_get job ''detail_url''))),
                           (''date_posted'', date_posted),
                           (''min_annual_salary_usd'', py_or (dict_get job ''min_annual_salary_usd'')
                                                         (dict_get job ''salary_min_annual_usd'')),
                           (''max_annual_salary_usd'', py_or (dict_get job ''max_annual_salary_usd'')
                                                         (dict_get job ''salary_max_annual_usd'')),
                           (''remote'', dict_get job ''remote''),
                           (''technology_slugs'', technology_slugs),
                           (''search_keywords'', PStr role),
                           (''search_location'', PStr search_location_label),
                           (''coordinates'', coordinates),
                           (''scraped_at'', PTime now)], w'))
                | _ \<Rightarrow> (Inl AttributeError, w)))"

definition map_job ::
  "env \<Rightarrow> string \<Rightarrow> string \<Rightarrow> pyval \<Rightarrow> world \<Rightarrow> (error + py_dict option) \<times> world" where
  "map_job E role search_location_label job w =
     (case job of
        PDict job_dict \<Rightarrow>
          (case mapped_fields E role search_location_label job_dict w of
             (Inl e, w') \<Rightarrow> (Inl e, w')
           | (Inr mapped_job, w') \<Rightarrow>
               if \<not> truthy (dict_get mapped_job ''url'') \<and> \<not> truthy (dict_get mapped_job ''job_id'')
               then (Inr None, w')
               else (Inr (Some mapped_job), w'))
      | _ \<Rightarrow> (Inr None, w))"

text \<open>
  The values that do not change while one role is collected, and the counters of the
  \<open>while\<close> loop.
\<close>

record ctx =
  role_label :: string
  search_location_label :: string
  normalized_locations :: "string list"
  max_age_days :: int
  per_role_limit :: int
  per_page_limit :: int

record role_state =
  total_collected :: int
  total_pages :: int
  total_credits_used :: int
  page :: int

text \<open>
  The body of \<open>for job in data\<close>. The result \<open>None\<close> is \<open>continue\<close>; otherwise it is
  the new value of \<open>total_collected\<close>. An exception of \<open>upsert_job\<close> is caught and
  logged, and the posting is not counted.
\<close>

definition process_job :: "env \<Rightarrow> ctx \<Rightarrow> pyval \<Rightarrow> int \<Rightarrow> world \<Rightarrow> (error + int option) \<times> world" where
  "process_job E C job collected w =
     (case py_get job ''job_title'' of
        Inl e \<Rightarrow> (Inl e, w)
      | Inr t \<Rightarrow>
          (case py_get job ''title'' of
             Inl e \<Rightarrow> (Inl e, w)
           | Inr t' \<Rightarrow>
               (case should_skip_job (role_label C) (py_or t t') of
                  Inl e \<Rightarrow> (Inl e, w)
                | Inr True \<Rightarrow> (Inr None, w)
                | Inr False \<Rightarrow>
                    (case map_job E (role_label C) (search_location_label C) job w of
                       (Inl e, w') \<Rightarrow> (Inl e, w')
                     | (Inr None, w') \<Rightarrow> (Inr None, w')
                     | (Inr (Some mapped), w') \<Rightarrow>
                         (case upsert_job E mapped w' of
                            (Inl e, w'') \<Rightarrow> (Inr (Some collected), w'')
                          | (Inr saved, w'') \<Rightarrow> (Inr (Some (collected + 1)), w''))))))"

fun job_loop :: "env \<Rightarrow> ctx \<Rightarrow> pyval list \<Rightarrow> int \<Rightarrow> world \<Rightarrow> (error + int) \<times> world" where
  "job_loop E C [] collected w = (Inr collected, w)"
| "job_loop E C (job # rest) collected w =
     (case process_job E C job collected w of
        (Inl e, w') \<Rightarrow> (Inl e, w')
      | (Inr None, w') \<Rightarrow> job_loop E C rest collected w'
      | (Inr (Some collected'), w') \<Rightarrow>
          if collected' \<ge> per_role_limit C then (Inr collected', w')
          else job_loop E C rest collected' w')"

text \<open>The country code derived from a location, and the search payload of one page.\<close>

definition country_code :: "string \<Rightarrow> string option" where
  "country_code loc =
     (let loc_lower = py_lower loc in
      if py_in ''united states'' loc_lower then Some ''US''
      else if py_in ''india'' loc_lower then Some ''IN''
      else if py_in ''united kingdom'' loc_lower \<or> py_in ''uk'' loc_lower then Some ''GB''
      else if py_in ''canada'' loc_lower then Some ''CA''
      else if py_in ''germany'' loc_lower then Some ''DE''
      else if py_in ''australia'' loc_lower then Some ''AU''
      else if py_in ''singapore'' loc_lower then Some ''SG''
      else if py_in ''japan'' loc_lower then Some ''JP''
      else if py_in ''hong kong'' loc_lower then Some ''HK''
      else if py_in ''switzerland'' loc_lower then Some ''CH''
      else if py_in ''france'' loc_lower then Some ''FR''
      else if py_in ''netherlands'' loc_lower then Some ''NL''
      else if py_in ''ireland'' loc_lower then Some ''IE''
      else if py_in ''sweden'' loc_lower then Some ''SE''
      else None)"

definition search_payload :: "ctx \<Rightarrow> int \<Rightarrow> int \<Rightarrow> py_dict" where
  "search_payload C page_no page_limit =
     (let payload = [(''job_title_or'', PList (map PStr (generate_role_variations (role_label C)))),
                     (''posted_at_max_age_days'', PInt (max_age_days C)),
                     (''page'', PInt page_no),
                     (''limit'', PInt page_limit)];
          country_codes = List.map_filter country_code (normalized_locations C)
      in if normalized_locations C = [] then payload
         else if country_codes = []
           then dict_set payload ''job_location_pattern_or'' (PList (map PStr (normalized_locations C)))
         else dict_set
                (dict_set payload ''job_location_pattern_or'' (PList (map PStr (normalized_locations C))))
                ''job_country_code_or'' (PList (map PStr country_codes)))"

text \<open>\<open>total_credits_used += credits_used or estimated_credits\<close>\<close>

definition add_credits :: "int \<Rightarrow> pyval \<Rightarrow> error + int" where
  "add_credits credits v =
     (case v of
        PInt n \<Rightarrow> Inr (credits + n)
      | PBool b \<Rightarrow> Inr (credits + (if b then 1 else 0))
      | _ \<Rightarrow> Inl TypeError)"

text \<open>\<open>response.get("data", [])\<close> and \<open>response.get("metadata", {})\<close>, guarded by \<open>isinstance\<close>.\<close>

definition response_data :: "pyval \<Rightarrow> pyval" where
  "response_data response =
     (case response of PDict r \<Rightarrow> dict_get_default r ''data'' (PList []) | _ \<Rightarrow> PList [])"

definition response_metadata :: "pyval \<Rightarrow> pyval" where
  "response_metadata response =
     (case response of PDict r \<Rightarrow> dict_get_default r ''metadata'' (PDict []) | _ \<Rightarrow> PDict [])"

text \<open>
  One pass through the body of \<open>while total_collected < per_role_limit\<close>: it ends in
  \<open>Break\<close>, in \<open>Continue\<close> with the page number advanced, or in an exception that
  nothing in \<open>collect_jobs_for_roles\<close> catches. Every exception of \<open>search_jobs\<close> is
  caught and breaks the loop.
\<close>

datatype 'a step = Break (state_of: 'a) | Continue (state_of: 'a)

definition page_iteration :: "env \<Rightarrow> ctx \<Rightarrow> role_state \<Rightarrow> world \<Rightarrow> (error + role_state step) \<times> world" where
  "page_iteration E C st w =
     (let remaining = per_role_limit C - total_collected st;
          page_limit = max 1 (min (per_page_limit C) remaining)
      in case search_jobs E (search_payload C (page st) page_limit) w of
           (Inl e, w1) \<Rightarrow> (Inr (Break st), w1)
         | (Inr response, w1) \<Rightarrow>
             if \<not> truthy (response_data response) then (Inr (Break st), w1)
             else
               (case response_metadata response of
                  PDict metadata \<Rightarrow>
                    (let credits_used = py_or (dict_get metadata ''credits_used'')
                                          (py_or (dict_get metadata ''credits_consumed'') (PInt 0));
                         estimated_credits = py_or (dict_get metadata ''estimated_credits'')
                                               (py_or (dict_get metadata ''credits_estimated'') (PInt 0))
                     in case add_credits (total_credits_used st) (py_or credits_used estimated_credits) of
                          Inl e \<Rightarrow> (Inl e, w1)
                        | Inr credits \<Rightarrow>
                            (case py_iter (response_data response) of
                               Inl e \<Rightarrow> (Inl e, w1)
                             | Inr jobs \<Rightarrow>
                                 (case job_loop E C jobs (total_collected st) w1 of
                                    (Inl e, w2) \<Rightarrow> (Inl e, w2)
                                  | (Inr collected, w2) \<Rightarrow>
                                      (let st' = st\<lparr>total_collected := collected,
                                                     total_pages := total_pages st + 1,
                                                     total_credits_used := credits\<rparr>;
                                           has_more = dict_get metadata ''has_more''
                                       in if collected \<ge> per_role_limit C then (Inr (Break st'), w2)
                                          else if has_more = PBool False then (Inr (Break st'), w2)
                                          else (Inr (Continue (st'\<lparr>page := page st + 1\<rparr>)), w2)))))
                | _ \<Rightarrow> (Inl AttributeError, w1)))"

text \<open>
  The \<open>while\<close> loop. Nothing in the code bounds the number of pages when the upstream
  keeps answering with postings that are all passed over, so the loop is given fuel:
  \<open>None\<close> is a loop that has not ended within \<open>fuel\<close> iterations.
\<close>

fun while_pages :: "nat \<Rightarrow> env \<Rightarrow> ctx \<Rightarrow> role_state \<Rightarrow> world \<Rightarrow> ((error + role_state) \<times> world) option" where
  "while_pages fuel E C st w =
     (if total_collected st < per_role_limit C then
        (case fuel of
           0 \<Rightarrow> None
         | Suc fuel' \<Rightarrow>
             (case page_iteration E C st w of
                (Inl e, w') \<Rightarrow> Some (Inl e, w')
              | (Inr (Break st'), w') \<Rightarrow> Some (Inr st', w')
              | (Inr (Continue st'), w') \<Rightarrow> while_pages fuel' E C st' w'))
      else Some (Inr st, w))"

declare while_pages.simps [simp del]

text \<open>The summary entry of a role, and the loop over the roles.\<close>

record role_summary =
  jobs_collected :: int
  pages_fetched :: int
  credits_tracked :: int

definition collect_role ::
  "nat \<Rightarrow> env \<Rightarrow> string \<Rightarrow> string list \<Rightarrow> int \<Rightarrow> int \<Rightarrow> string \<Rightarrow> world
   \<Rightarrow> ((error + role_summary) \<times> world) option" where
  "collect_role fuel E label locs age limit role_lbl w =
     (let C = \<lparr> role_label = role_lbl, search_location_label = label, normalized_locations = locs,
                max_age_days = age, per_role_limit = limit,
                per_page_limit = max 1 (min (max_jobs_per_search (cfg E)) limit) \<rparr>;
          st = \<lparr> total_collected = 0, total_pages = 0, total_credits_used = 0, page = 1 \<rparr>
      in case while_pages fuel E C st w of
           None \<Rightarrow> None
         | Some (Inl e, w') \<Rightarrow> Some (Inl e, w')
         | Some (Inr st', w') \<Rightarrow>
             Some (Inr \<lparr> jobs_collected = total_collected st', pages_fetched = total_pages st',
                         credits_tracked = total_credits_used st' \<rparr>, w'))"

fun roles_loop ::
  "nat \<Rightarrow> env \<Rightarrow> string \<Rightarrow> string list \<Rightarrow> int \<Rightarrow> int \<Rightarrow> string list
   \<Rightarrow> (string \<times> role_summary) list \<Rightarrow> world
   \<Rightarrow> ((error + (string \<times> role_summary) list) \<times> world) option" where
  "roles_loop fuel E label locs age limit [] summary w = Some (Inr summary, w)"
| "roles_loop fuel E label locs age limit (role # rest) summary w =
     (if py_strip role = [] then roles_loop fuel E label locs age limit rest summary w
      else case collect_role fuel E label locs age limit (py_strip role) w of
             None \<Rightarrow> None
           | Some (Inl e, w') \<Rightarrow> Some (Inl e, w')
           | Some (Inr s, w') \<Rightarrow>
               roles_loop fuel E label locs age limit rest (AList.update (py_strip role) s summary) w')"

definition collect_jobs_for_roles ::
  "nat \<Rightarrow> env \<Rightarrow> string list \<Rightarrow> string list \<Rightarrow> int \<Rightarrow> int \<Rightarrow> world
   \<Rightarrow> ((error + (string \<times> role_summary) list) \<times> world) option" where
  "collect_jobs_for_roles fuel E roles locations age limit w =
     (if roles = [] then Some (Inr [], w)
      else
        let locs = map py_strip (filter (\<lambda>loc. loc \<noteq> [] \<and> py_strip loc \<noteq> []) locations);
            label = (if locs \<noteq> [] then py_join '','' locs else [])
        in roles_loop fuel E label locs age limit roles [] w)"

text \<open>
  Vocabulary for the statements about pagination: the page number carried by each
  request posted between two states, the page size asked for in an iteration, and the
  \<open>has_more\<close> entry of a response (\<open>None\<close> when the metadata omits it).
\<close>

definition sent_pages :: "world \<Rightarrow> world \<Rightarrow> pyval list" where
  "sent_pages w w' = map (\<lambda>(endpoint, json). dict_get json ''page'') (new_requests w w')"

definition page_limit_of :: "ctx \<Rightarrow> role_state \<Rightarrow> int" where
  "page_limit_of C st = max 1 (min (per_page_limit C) (per_role_limit C - total_collected st))"

definition has_more_of :: "pyval \<Rightarrow> pyval" where
  "has_more_of response =
     (case response_metadata response of PDict metadata \<Rightarrow> dict_get metadata ''has_more'' | _ \<Rightarrow> PNone)"



section \<open>gap_service.get_role_required_skills\<close>

text \<open>
  The queries of the function, on the documents of the collection. A \<open>datetime\<close> is
  counted in microseconds, so \<open>timedelta(days=1)\<close> is \<open>day\<close>.

  \<open>{"scraped_at": {"$gte": cutoff}}\<close> selects the documents whose \<open>scraped_at\<close> is a
  date not before the cutoff.
\<close>

definition day :: int where
  "day = 86400000000"

definition scraped_since :: "int \<Rightarrow> py_dict \<Rightarrow> bool" where
  "scraped_since cutoff doc =
     (case map_of doc ''scraped_at'' of Some (PTime t) \<Rightarrow> cutoff \<le> t | _ \<Rightarrow> False)"

text \<open>
  A regular expression selects a field that is a string matching it, or an array with
  such a string. \<open>^role$\<close> with \<open>IGNORECASE\<close>, the role escaped, matches the strings
  equal to the role up to the case of letters, with or without one final line feed;
  the unanchored pattern matches the strings that contain the role up to case.
\<close>

definition regex_field :: "(string \<Rightarrow> bool) \<Rightarrow> pyval option \<Rightarrow> bool" where
  "regex_field matches field =
     (case field of
        Some (PStr s) \<Rightarrow> matches s
      | Some (PList xs) \<Rightarrow> list_ex (\<lambda>x. case x of PStr s \<Rightarrow> matches s | _ \<Rightarrow> False) xs
      | _ \<Rightarrow> False)"

definition search_keyword_pattern :: "string \<Rightarrow> string \<Rightarrow> bool" where
  "search_keyword_pattern normalized_role s =
     (py_lower s = py_lower normalized_role \<or> py_lower s = py_lower normalized_role @ [CHR 0x0A])"

definition role_pattern :: "string \<Rightarrow> string \<Rightarrow> bool" where
  "role_pattern normalized_role s = py_in (py_lower normalized_role) (py_lower s)"

definition keyword_filter :: "int \<Rightarrow> string \<Rightarrow> py_dict \<Rightarrow> bool" where
  "keyword_filter cutoff normalized_role doc =
     (scraped_since cutoff doc \<and>
      regex_field (search_keyword_pattern normalized_role) (map_of doc ''search_keywords''))"

definition title_filter :: "int \<Rightarrow> string \<Rightarrow> py_dict \<Rightarrow> bool" where
  "title_filter cutoff normalized_role doc =
     (scraped_since cutoff doc \<and> regex_field (role_pattern normalized_role) (map_of doc ''title''))"

text \<open>
  \<open>{"technology_slugs": {"$exists": True, "$ne": []}}\<close>: the field is there and is
  neither the empty array nor an array that holds an empty array.
\<close>

definition has_technology_slugs :: "py_dict \<Rightarrow> bool" where
  "has_technology_slugs doc =
     (case map_of doc ''technology_slugs'' of
        None \<Rightarrow> False
      | Some (PList xs) \<Rightarrow> xs \<noteq> [] \<and> PList [] \<notin> set xs
      | Some v \<Rightarrow> True)"

text \<open>
  The aggregation pipeline after \<open>$match\<close>. \<open>$unwind\<close> gives one value for each element
  of an array, none for a missing field or \<open>null\<close>, and the value itself otherwise.
  \<open>$group\<close> counts the occurrences of each value, and \<open>$sort\<close> orders the groups by
  falling count. MongoDB fixes no order among groups of equal count; the model fixes
  one, and the statements below about the result do not depend on that choice.
\<close>

definition unwind_technology_slugs :: "py_dict \<Rightarrow> pyval list" where
  "unwind_technology_slugs doc =
     (case map_of doc ''technology_slugs'' of
        None \<Rightarrow> []
      | Some PNone \<Rightarrow> []
      | Some (PList xs) \<Rightarrow> xs
      | Some v \<Rightarrow> [v])"

definition group_count :: "pyval list \<Rightarrow> (pyval \<times> nat) list" where
  "group_count values = map (\<lambda>v. (v, count_list values v)) (remdups values)"

fun insert_by_count :: "pyval \<times> nat \<Rightarrow> (pyval \<times> nat) list \<Rightarrow> (pyval \<times> nat) list" where
  "insert_by_count g [] = [g]"
| "insert_by_count g (h # hs) = (if snd h < snd g then g # h # hs else h # insert_by_count g hs)"

definition sort_by_count :: "(pyval \<times> nat) list \<Rightarrow> (pyval \<times> nat) list" where
  "sort_by_count groups = foldr insert_by_count groups []"

definition aggregate_slugs :: "py_dict list \<Rightarrow> (pyval \<times> nat) list" where
  "aggregate_slugs matched = sort_by_count (group_count (concat (map unwind_technology_slugs matched)))"

text \<open>
  The function. The cache in front of it is a \<open>TTLCache\<close>; an entry may expire between
  two calls, which is a change of the cache from outside. The key is the formatted
  string \<open>role_skills_{role.lower()}_{days}_{threshold}\<close>, which determines the three
  values formatted into it and is modelled as their triple. Failures of the database,
  which the \<open>except\<close> clause turns into the empty list, are outside the model.
\<close>

type_synonym 'f skill_cache = "string \<times> int \<times> 'f \<Rightarrow> 'f required_skill list option"

definition percentage_of :: "'f float_ops \<Rightarrow> nat \<Rightarrow> nat \<Rightarrow> 'f" where
  "percentage_of F cnt total_jobs = fl_mul F (true_div F (int cnt) (int total_jobs)) (fl_of_int F 100)"

definition required_skills_loop ::
  "'f float_ops \<Rightarrow> nat \<Rightarrow> 'f \<Rightarrow> (pyval \<times> nat) list \<Rightarrow> 'f required_skill list" where
  "required_skills_loop F total_jobs threshold results =
     concat (map (\<lambda>(skill, cnt).
        if total_jobs = 0 then []
        else if fl_ge F (percentage_of F cnt total_jobs) (fl_mul F threshold (fl_of_int F 100))
        then [\<lparr> rs_skill = skill, rs_technology_slug = skill, rs_count = cnt,
                rs_percentage = fl_round2 F (percentage_of F cnt total_jobs),
                rs_total_jobs = total_jobs \<rparr>]
        else []) results)"

definition matched_postings :: "int \<Rightarrow> string \<Rightarrow> py_dict list \<Rightarrow> py_dict list" where
  "matched_postings cutoff normalized_role docs =
     (if length (filter (keyword_filter cutoff normalized_role) docs) = 0
      then filter (title_filter cutoff normalized_role) docs
      else filter (keyword_filter cutoff normalized_role) docs)"

definition get_role_required_skills ::
  "'f float_ops \<Rightarrow> env \<Rightarrow> string \<Rightarrow> int \<Rightarrow> 'f \<Rightarrow> 'f skill_cache \<Rightarrow> world
   \<Rightarrow> 'f required_skill list \<times> 'f skill_cache \<times> world" where
  "get_role_required_skills F E role days threshold cache w =
     (let cache_key = (py_lower role, days, threshold) in
      case cache cache_key of
        Some cached \<Rightarrow> (cached, cache, w)
      | None \<Rightarrow>
          (let (now, w') = utcnow E w;
               cutoff_date = now - days * day;
               normalized_role = py_strip role;
               matched = matched_postings cutoff_date normalized_role (store w');
               total_jobs = length matched;
               jobs_with_tech_slugs = length (filter has_technology_slugs (store w'))
           in if jobs_with_tech_slugs = 0 then ([], cache, w')
              else
                (let results = aggregate_slugs matched
                 in if results = [] then ([], cache, w')
                    else
                      (let required_skills = required_skills_loop F total_jobs threshold results
                       in (required_skills, cache(cache_key \<mapsto> required_skills), w')))))"



definition role_postings :: "env \<Rightarrow> string \<Rightarrow> int \<Rightarrow> world \<Rightarrow> py_dict list" where
  "role_postings E role days w =
     matched_postings (utcnow_at E (ticks w) - days * day) (py_strip role) (store w)"

section \<open>Concrete environments\<close>

text \<open>
  An environment whose transport gives the same answer to every request, with
  \<open>n\<close> as \<open>their_stack_max_retries\<close> and \<open>m\<close> as \<open>max_jobs_per_search\<close>; its clock
  counts its readings and its constructor accepts every posting.
\<close>

definition constant_env :: "nat \<Rightarrow> int \<Rightarrow> outcome \<Rightarrow> env" where
  "constant_env n m out =
     \<lparr> cfg = \<lparr> their_stack_max_retries = n, max_jobs_per_search = m \<rparr>,
       transport = (\<lambda>k endpoint json. out),
       utcnow_at = (\<lambda>k. int k),
       validate = (\<lambda>d. True),
       fromisoformat = (\<lambda>s. None),
       repr_other = (\<lambda>v. ''?'') \<rparr>"

text \<open>Three of them: every request is answered 200 with an empty object, 503, or 401.\<close>

definition env_200 :: env where
  "env_200 = constant_env 3 100 (Answered (Response 200 ''{}'' (Some (PDict []))))"











text \<open>
  An upstream that answers page 1 with the given postings and metadata and every other
  page with an empty list; a posting with an identifier and one without any.
\<close>

definition page_body :: "pyval list \<Rightarrow> py_dict \<Rightarrow> outcome" where
  "page_body jobs metadata =
     Answered (Response 200 [] (Some (PDict [(''data'', PList jobs), (''metadata'', PDict metadata)])))"

definition paged_env :: "pyval list \<Rightarrow> py_dict \<Rightarrow> env" where
  "paged_env jobs metadata =
     \<lparr> cfg = \<lparr> their_stack_max_retries = 3, max_jobs_per_search = 100 \<rparr>,
       transport = (\<lambda>k endpoint json. if dict_get json ''page'' = PInt 1 then page_body jobs metadata
                                         else page_body [] []),
       utcnow_at = (\<lambda>k. int k),
       validate = (\<lambda>d. True),
       fromisoformat = (\<lambda>s. None),
       repr_other = (\<lambda>v. ''?'') \<rparr>"

definition upstream_job :: pyval where
  "upstream_job =
     PDict [(''id'', PInt 17), (''job_title'', PStr ''Backend Developer''),
            (''job_url'', PStr ''https://example.com/17''),
            (''technology_slugs'', PList [PStr ''python'', PStr ''react-js'']),
            (''locations'', PList [PDict [(''city'', PStr ''Pune'')], PStr ''India''])]"

definition anonymous_job :: py_dict where
  "anonymous_job = [(''job_title'', PStr ''Backend Developer''), (''company'', PStr ''Acme'')]"

definition backend_ctx :: ctx where
  "backend_ctx =
     \<lparr> role_label = ''Backend Developer'', search_location_label = ''India'',
       normalized_locations = [''India''], max_age_days = 14, per_role_limit = 10,
       per_page_limit = 10 \<rparr>"

definition first_page :: role_state where
  "first_page = \<lparr> total_collected = 0, total_pages = 0, total_credits_used = 0, page = 1 \<rparr>"

text \<open>
  A collection of five postings found for the role "Backend Developer", four tagged
  \<open>a\<close> and one tagged \<open>b\<close>, and the same collection with the tags removed.
\<close>

definition tagged_posting :: "string \<Rightarrow> pyval list \<Rightarrow> py_dict" where
  "tagged_posting url slugs =
     [(''title'', PStr ''Engineer''), (''url'', PStr url),
      (''search_keywords'', PStr ''Backend Developer''), (''scraped_at'', PTime 0),
      (''technology_slugs'', PList slugs)]"


definition untagged_world :: world where
  "untagged_world = world0\<lparr>store := [tagged_posting ''u1'' [], tagged_posting ''u2'' []]\<rparr>"

definition no_cache :: "rat skill_cache" where
  "no_cache = (\<lambda>key. None)"


section \<open>Properties of the skill normaliser\<close>

lemma map_technology_slugs_sorted_distinct:
  "sorted (map_technology_slugs slugs) \<and> distinct (map_technology_slugs slugs)"
  by (simp add: map_technology_slugs_def split: option.splits)

text \<open>
  C7. Idempotence of the normaliser fails on the code: the separators of a slug that
  is not in the table are replaced by spaces after the slug was stripped, so a
  separator at the start of a slug leaves an entry with a leading space, and
  normalising that entry again strips it. The input \<open>["_react"]\<close> gives
  \<open>[" react"]\<close>, which the second pass turns into \<open>["react"]\<close>; the input
  \<open>["-"]\<close> gives the blank entry \<open>[" "]\<close>.
\<close>

theorem map_technology_slugs_not_idempotent:
  "map_technology_slugs (Some [''_react'']) = ['' react''] \<and>
   map_technology_slugs (Some (map_technology_slugs (Some [''_react'']))) = [''react''] \<and>
   map_technology_slugs (Some [''-'']) = ['' '']"
  by code_simp

section \<open>Properties of the string helpers\<close>

lemma lower_char_cases:
  "lower_char c = c \<or> (c \<in> set upper_letters \<and> lower_char c \<in> set lower_letters)"
proof (cases "map_of (zip upper_letters lower_letters) c")
  case None
  then show ?thesis by (simp add: lower_char_def)
next
  case (Some d)
  then have "(c, d) \<in> set (zip upper_letters lower_letters)" by (rule map_of_SomeD)
  then have "c \<in> set upper_letters" "d \<in> set lower_letters"
    by (auto dest: set_zip_leftD set_zip_rightD)
  with Some show ?thesis by (simp add: lower_char_def)
qed

lemma lower_fix: "d \<in> set lower_letters \<Longrightarrow> lower_char d = d"
proof -
  assume "d \<in> set lower_letters"
  moreover have "set lower_letters \<inter> set upper_letters = {}"
    by (simp add: lower_letters_def upper_letters_def)
  ultimately have "d \<notin> set upper_letters" by blast
  then have "d \<notin> fst ` set (zip upper_letters lower_letters)"
    by (auto dest: set_zip_leftD)
  then have "map_of (zip upper_letters lower_letters) d = None"
    by (simp add: map_of_eq_None_iff)
  then show ?thesis by (simp add: lower_char_def)
qed

lemma lower_char_idem: "lower_char (lower_char c) = lower_char c"
  using lower_char_cases [of c] lower_fix [of "lower_char c"] by auto

lemma not_space_upper: "d \<in> set upper_letters \<Longrightarrow> \<not> is_space d"
  unfolding is_space_def py_whitespace_def upper_letters_def by auto

lemma not_space_lower: "d \<in> set lower_letters \<Longrightarrow> \<not> is_space d"
  unfolding is_space_def py_whitespace_def lower_letters_def by auto

lemma is_space_lower_char: "is_space (lower_char c) = is_space c"
  using lower_char_cases [of c] not_space_upper [of c] not_space_lower [of "lower_char c"] by auto

lemma py_lower_idem: "py_lower (py_lower s) = py_lower s"
  by (simp add: py_lower_def lower_char_idem)

lemma py_lstrip_lower: "py_lstrip (py_lower s) = py_lower (py_lstrip s)"
  by (simp add: py_lstrip_def py_lower_def dropWhile_map comp_def is_space_lower_char)

lemma py_lower_rev: "py_lower (rev s) = rev (py_lower s)"
  by (simp add: py_lower_def rev_map)

lemma py_strip_lower: "py_strip (py_lower s) = py_lower (py_strip s)"
  by (simp add: py_strip_def py_lstrip_lower py_lower_rev [symmetric])

lemma py_lower_Nil_iff: "py_lower s = [] \<longleftrightarrow> s = []"
  by (simp add: py_lower_def)

section \<open>Properties of compute_user_coverage\<close>

lemma coverage_loop_acc:
  "coverage_loop E us rs (items, missing, have) =
     (items @ map (\<lambda>r. \<lparr> sg_skill = skill_name_of E r, sg_required_percentage = rs_percentage r,
                          sg_user_has = user_has_skill us (skill_name_of E r) \<rparr>) rs,
      missing @ map (skill_name_of E) (filter (\<lambda>r. \<not> user_has_skill us (skill_name_of E r)) rs),
      have + length (filter (\<lambda>r. user_has_skill us (skill_name_of E r)) rs))"
  by (induction rs arbitrary: items missing "have") (simp_all add: Let_def)

lemma py_strip_Nil: "py_strip [] = []"
  by (simp add: py_strip_def py_lstrip_def)

lemma user_has_skill_normalized:
  "user_has_skill (normalize_user_skills us) (skill_name_of E r) = user_possesses E us r"
  by (auto simp add: py_strip_Nil user_has_skill_def normalize_user_skills_def user_possesses_def ci_equal_def
      skill_name_of_def required_key_def py_or_def list_ex_iff py_strip_lower py_lower_idem py_lower_Nil_iff)

text \<open>
  C9. Coverage arithmetic of \<open>compute_user_coverage\<close>. With an empty list of required
  skills the result is the explicit empty case \<open>([], [], 0.0, 0, 0)\<close>. Otherwise every
  required skill is compared with the user's skills up to case (and surrounding white
  space), \<open>skill_match_count\<close> is the number of required skills the user possesses,
  the missing list holds the names of exactly the other required skills, in order, and
  the coverage is that count divided by the number of required skills, times 100.
\<close>

theorem compute_user_coverage_spec:
  "compute_user_coverage F E user_skills required_skills =
     (if required_skills = [] then ([], [], NFloat (fl_of_int F 0), 0, 0)
      else
        (map (\<lambda>r. \<lparr> sg_skill = skill_name_of E r, sg_required_percentage = rs_percentage r,
                     sg_user_has = user_possesses E user_skills r \<rparr>) required_skills,
         map (skill_name_of E) (filter (\<lambda>r. \<not> user_possesses E user_skills r) required_skills),
         NFloat (fl_mul F
                  (true_div F (int (length (filter (user_possesses E user_skills) required_skills)))
                              (int (length required_skills)))
                  (fl_of_int F 100)),
         length (filter (user_possesses E user_skills) required_skills),
         length required_skills))"
  by (simp add: compute_user_coverage_def coverage_loop_acc user_has_skill_normalized Let_def)


text \<open>
  Four required skills of which the user has three, in other letter case: the coverage
  is 75, the match count 3 and the one unmatched skill is missing.
\<close>

theorem compute_user_coverage_spec_witness:
  "compute_user_coverage rat_ops env_200 [''PYTHON '', ''Docker'', '' '', ''AWS'']
     [\<lparr> rs_skill = PStr ''python'', rs_technology_slug = PStr ''Python'', rs_count = 8,
        rs_percentage = 80, rs_total_jobs = 10 \<rparr>,
      \<lparr> rs_skill = PStr ''docker'', rs_technology_slug = PStr ''docker'', rs_count = 5,
        rs_percentage = 50, rs_total_jobs = 10 \<rparr>,
      \<lparr> rs_skill = PStr ''aws'', rs_technology_slug = PNone, rs_count = 5,
        rs_percentage = 50, rs_total_jobs = 10 \<rparr>,
      \<lparr> rs_skill = PStr ''kafka'', rs_technology_slug = PStr ''kafka'', rs_count = 3,
        rs_percentage = 30, rs_total_jobs = 10 \<rparr>]
   = ([\<lparr> sg_skill = ''python'', sg_required_percentage = 80, sg_user_has = True \<rparr>,
       \<lparr> sg_skill = ''docker'', sg_required_percentage = 50, sg_user_has = True \<rparr>,
       \<lparr> sg_skill = ''aws'', sg_required_percentage = 50, sg_user_has = True \<rparr>,
       \<lparr> sg_skill = ''kafka'', sg_required_percentage = 30, sg_user_has = False \<rparr>],
      [''kafka''], NFloat 75, 3, 4)"
  (is "?lhs = ?val")
proof -
  note spec = compute_user_coverage_spec [of rat_ops env_200 "[''PYTHON '', ''Docker'', '' '', ''AWS'']"]
  show ?thesis
    by (subst spec) code_simp
qed

section \<open>Properties of the client\<close>

lemma post_once_requests:
  "post_once E endpoint json w = (r, w') \<Longrightarrow>
     requests w' = requests w @ [(endpoint, json)] \<and> sleeps w' = sleeps w \<and> store w' = store w \<and> ticks w' = ticks w"
  by (auto simp: post_once_def)

lemma retrying_requests:
  "retrying E endpoint json a w = (r, w') \<Longrightarrow>
     \<exists>k. requests w' = requests w @ replicate (Suc k) (endpoint, json) \<and> store w' = store w \<and> ticks w' = ticks w"
proof (induction E endpoint json a w arbitrary: r w' rule: retrying.induct)
  case (1 E endpoint json a w)
  obtain r1 w1 where p: "post_once E endpoint json w = (r1, w1)" by (cases "post_once E endpoint json w")
  note po = post_once_requests [OF p]
  show ?case
  proof (cases "\<exists>msg. r1 = Inl (TheirStackRetryableError msg) \<and> \<not> a \<ge> their_stack_max_retries (cfg E)")
    case True
    then obtain msg where m: "r1 = Inl (TheirStackRetryableError msg)" and lt: "\<not> a \<ge> their_stack_max_retries (cfg E)" by blast
    let ?w2 = "w1\<lparr>sleeps := sleeps w1 @ [wait_exponential 1 1 10 a]\<rparr>"
    from "1.prems" p m lt have rec: "retrying E endpoint json (a + 1) ?w2 = (r, w')"
      by (subst (asm) retrying.simps) simp
    from "1.IH" [OF p [symmetric] _ _ lt rec] m
    obtain k where "requests w' = requests ?w2 @ replicate (Suc k) (endpoint, json) \<and> store w' = store ?w2 \<and> ticks w' = ticks ?w2"
      by auto
    with po have "requests w' = requests w @ replicate (Suc (Suc k)) (endpoint, json) \<and> store w' = store w \<and> ticks w' = ticks w"
      by (simp add: replicate_app_Cons_same)
    then show ?thesis by blast
  next
    case False
    with "1.prems" p have "w' = w1"
      by (subst (asm) retrying.simps) (auto split: sum.splits error.splits if_splits)
    with po have "requests w' = requests w @ replicate (Suc 0) (endpoint, json) \<and> store w' = store w \<and> ticks w' = ticks w" by simp
    then show ?thesis by blast
  qed
qed


lemma dict_get_set: "dict_get (dict_set d k v) k' = (if k' = k then v else dict_get d k')"
  by (simp add: dict_get_def dict_set_def update_conv')

lemma dict_has_set: "dict_has (dict_set d k v) k' = (k' = k \<or> dict_has d k')"
  by (simp add: dict_has_def dict_set_def update_conv')

lemma dict_get_setdefault:
  "dict_get (dict_setdefault d k v) k' = (if k' = k \<and> \<not> dict_has d k then v else dict_get d k')"
  by (simp add: dict_setdefault_def dict_get_set)

lemma dict_has_setdefault: "dict_has (dict_setdefault d k v) k' = (k' = k \<or> dict_has d k')"
  by (auto simp add: dict_setdefault_def dict_has_set)



text \<open>
  C4. Temporal-filter precondition. When none of the keys \<open>posted_at_max_age_days\<close>,
  \<open>posted_at_gte\<close>, \<open>posted_at_lte\<close> is in the payload (or each that is there holds
  \<open>None\<close>), \<open>search_jobs\<close> raises the \<open>ValueError\<close> of the local validation and the
  state is the one it started from: no request has been posted.
\<close>

theorem search_jobs_requires_date_filter:
  assumes "list_all (\<lambda>key. dict_get payload key = PNone) date_filter_keys"
  shows "search_jobs E payload w =
           (Inl (ValueError (if payload = [] then ''Payload must not be empty''
                             else ''Payload must include one of posted_at_max_age_days or posted_at_gte/lte'')), w)
         \<and> new_requests w (snd (search_jobs E payload w)) = []"
proof -
  have "\<not> list_ex (\<lambda>key. dict_has payload key \<and> dict_get payload key \<noteq> PNone) date_filter_keys"
    using assms by (simp add: list_all_iff list_ex_iff)
  then have v: "validate_payload payload =
           Inl (ValueError (if payload = [] then ''Payload must not be empty''
                             else ''Payload must include one of posted_at_max_age_days or posted_at_gte/lte''))"
    by (simp add: validate_payload_def)
  show ?thesis by (simp add: search_jobs_def v new_requests_def)
qed


theorem search_jobs_requires_date_filter_witness:
  "list_all (\<lambda>key. dict_get [(''job_title_or'', PList [PStr ''Backend Developer'']), (''page'', PInt 1)] key = PNone)
     date_filter_keys \<and>
   search_jobs env_200 [(''job_title_or'', PList [PStr ''Backend Developer'']), (''page'', PInt 1)] world0 =
     (Inl (ValueError ''Payload must include one of posted_at_max_age_days or posted_at_gte/lte''), world0) \<and>
   new_requests world0
     (snd (search_jobs env_200 [(''job_title_or'', PList [PStr ''Backend Developer'']), (''page'', PInt 1)] world0)) = []"
proof -
  have h: "list_all (\<lambda>key. dict_get [(''job_title_or'', PList [PStr ''Backend Developer'']), (''page'', PInt 1)] key = PNone)
             date_filter_keys"
    by code_simp
  from search_jobs_requires_date_filter [OF h, of env_200 world0] h show ?thesis
    by (simp add: new_requests_def)
qed

text \<open>
  C5, as the specification states it, fails: a \<open>limit\<close> that the caller supplies is sent
  as it is. With \<open>max_jobs_per_search = 100\<close> and a payload that asks for 500, the one
  request posted carries the limit 500.
\<close>

theorem search_jobs_limit_not_bounded:
  "sent_limits world0
     (snd (search_jobs env_200 [(''posted_at_max_age_days'', PInt 7), (''limit'', PInt 500)] world0))
     = [PInt 500] \<and>
   max_jobs_per_search (cfg env_200) = 100"
  by code_simp

text \<open>
  C5, amended. For every payload that passes the validation at least one request is
  posted, and every request posted carries: page 1 when the payload had neither a
  \<open>page\<close> nor an \<open>offset\<close> key; and a limit, which is the caller's own limit
  unchanged when the payload had one, and \<open>max_jobs_per_search\<close> otherwise.
\<close>

theorem search_jobs_pagination_defaults:
  assumes valid: "validate_payload payload = Inr ()"
  shows "let w' = snd (search_jobs E payload w) in
           new_requests w w' \<noteq> [] \<and>
           list_all (\<lambda>(endpoint, sent).
               (\<not> dict_has payload ''page'' \<and> \<not> dict_has payload ''offset''
                  \<longrightarrow> dict_get sent ''page'' = PInt 1) \<and>
               dict_has sent ''limit'' \<and>
               dict_get sent ''limit'' =
                 (if dict_has payload ''limit'' then dict_get payload ''limit''
                  else PInt (max_jobs_per_search (cfg E))))
             (new_requests w w')"
proof -
  let ?sent = "pagination_defaults (cfg E) payload"
  obtain r w1 where pr: "post_with_retry E ''/v1/jobs/search'' ?sent w = (r, w1)"
    by (cases "post_with_retry E ''/v1/jobs/search'' ?sent w")
  then obtain k where rq: "requests w1 = requests w @ replicate (Suc k) (''/v1/jobs/search'', ?sent)"
    unfolding post_with_retry_def using retrying_requests by blast
  have w': "snd (search_jobs E payload w) = w1"
    using pr by (simp add: search_jobs_def valid split: sum.splits error.splits option.splits)
  have nr: "new_requests w w1 = replicate (Suc k) (''/v1/jobs/search'', ?sent)"
    by (simp add: new_requests_def rq)
  have p: "(\<not> dict_has payload ''page'' \<and> \<not> dict_has payload ''offset''
                  \<longrightarrow> dict_get ?sent ''page'' = PInt 1) \<and>
               dict_has ?sent ''limit'' \<and>
               dict_get ?sent ''limit'' =
                 (if dict_has payload ''limit'' then dict_get payload ''limit''
                  else PInt (max_jobs_per_search (cfg E)))"
    by (simp add: pagination_defaults_def Let_def dict_get_setdefault dict_has_setdefault)
  show ?thesis
    unfolding Let_def w' nr using p by (simp add: list_all_iff)
qed

theorem search_jobs_pagination_defaults_witness:
  "validate_payload [(''posted_at_max_age_days'', PInt 7)] = Inr () \<and>
   (let w' = snd (search_jobs env_200 [(''posted_at_max_age_days'', PInt 7)] world0) in
      new_requests world0 w' \<noteq> [] \<and>
      list_all (\<lambda>(endpoint, sent).
          (\<not> dict_has [(''posted_at_max_age_days'', PInt 7)] ''page'' \<and>
           \<not> dict_has [(''posted_at_max_age_days'', PInt 7)] ''offset''
             \<longrightarrow> dict_get sent ''page'' = PInt 1) \<and>
          dict_has sent ''limit'' \<and>
          dict_get sent ''limit'' =
            (if dict_has [(''posted_at_max_age_days'', PInt 7)] ''limit''
             then dict_get [(''posted_at_max_age_days'', PInt 7)] ''limit''
             else PInt (max_jobs_per_search (cfg env_200))))
        (new_requests world0 w')) \<and>
   sent_limits world0 (snd (search_jobs env_200 [(''posted_at_max_age_days'', PInt 7)] world0)) = [PInt 100]"
proof -
  have h: "validate_payload [(''posted_at_max_age_days'', PInt 7)] = Inr ()"
    by code_simp
  have v: "sent_limits world0 (snd (search_jobs env_200 [(''posted_at_max_age_days'', PInt 7)] world0)) = [PInt 100]"
    by code_simp
  from h search_jobs_pagination_defaults [OF h, of env_200 world0] v show ?thesis by blast
qed




section \<open>Properties of upsert_job\<close>




























section \<open>Properties of the collection service\<close>

lemma utcnow_world: "utcnow E w = (utcnow_at E (ticks w), w\<lparr>ticks := ticks w + 1\<rparr>)"
  by (simp add: utcnow_def)

lemma mapped_fields_world:
  "mapped_fields E role label job w = (Inr mapped, w1) \<Longrightarrow> w1 = w\<lparr>ticks := ticks w + 1\<rparr>"
  by (auto simp add: mapped_fields_def Let_def utcnow_def split: sum.splits pyval.splits)

text \<open>
  C3. Rejection of unidentifiable postings. When the dictionary that \<open>_map_job\<close> builds
  from an upstream job has neither a truthy \<open>job_id\<close> nor a truthy \<open>url\<close>,
  \<open>_map_job\<close> returns \<open>None\<close>, and the body of the collection loop passes the job
  over (or raises on its title before the mapping): it is not counted, and the state
  afterwards is the state before, or differs from it by the one clock reading of
  \<open>_map_job\<close>. The branch that calls \<open>upsert_job\<close> is not taken and the collection
  is unchanged.
\<close>

theorem unidentifiable_posting_rejected:
  assumes m: "mapped_fields E (role_label C) (search_location_label C) job w = (Inr mapped, w1)"
      and nj: "\<not> truthy (dict_get mapped ''job_id'')"
      and nu: "\<not> truthy (dict_get mapped ''url'')"
  shows "map_job E (role_label C) (search_location_label C) (PDict job) w = (Inr None, w1) \<and>
         w1 = w\<lparr>ticks := ticks w + 1\<rparr> \<and>
         (fst (process_job E C (PDict job) collected w) = Inr None \<or>
          fst (process_job E C (PDict job) collected w) = Inl AttributeError) \<and>
         (snd (process_job E C (PDict job) collected w) = w \<or>
          snd (process_job E C (PDict job) collected w) = w1) \<and>
         store (snd (process_job E C (PDict job) collected w)) = store w"
proof -
  have mj: "map_job E (role_label C) (search_location_label C) (PDict job) w = (Inr None, w1)"
    using m nj nu by (simp add: map_job_def)
  have w1: "w1 = w\<lparr>ticks := ticks w + 1\<rparr>" using m by (rule mapped_fields_world)
  have sk: "should_skip_job (role_label C) v = Inl AttributeError \<or>
            (\<exists>b. should_skip_job (role_label C) v = Inr b)" for v
    by (auto simp add: should_skip_job_def split: pyval.splits)
  have p: "(fst (process_job E C (PDict job) collected w) = Inr None \<or>
          fst (process_job E C (PDict job) collected w) = Inl AttributeError) \<and>
         (snd (process_job E C (PDict job) collected w) = w \<or>
          snd (process_job E C (PDict job) collected w) = w1)"
    using sk [of "py_or (dict_get job ''job_title'') (dict_get job ''title'')"]
    by (auto simp add: process_job_def py_get_def mj split: bool.splits)
  from p have "store (snd (process_job E C (PDict job) collected w)) = store w"
    using w1 by auto
  with mj w1 p show ?thesis by blast
qed

lemma page_iteration_cases:
  assumes s: "search_jobs E (search_payload C (page st) (page_limit_of C st)) w = (res, w1)"
      and it: "page_iteration E C st w = (Inr outcome, w')"
  shows "((\<exists>st'. outcome = Continue st') \<longleftrightarrow>
           (\<exists>response. res = Inr response \<and> truthy (response_data response) \<and>
              total_collected (state_of outcome) < per_role_limit C \<and>
              has_more_of response \<noteq> PBool False)) \<and>
         (\<forall>st'. outcome = Continue st' \<longrightarrow> page st' = page st + 1)"
  using it s
  unfolding page_iteration_def page_limit_of_def has_more_of_def Let_def
  by (auto split: sum.splits pyval.splits if_splits prod.splits)

lemma default_now_requests: "requests (snd (default_now E kwargs key dw)) = requests (snd dw)"
  by (simp add: default_now_def utcnow_def split_beta Let_def)

lemma JobPosting_init_requests: "requests (snd (JobPosting_init E kwargs w)) = requests w"
  by (simp add: JobPosting_init_def split_beta Let_def default_now_requests)

lemma upsert_job_requests: "requests (snd (upsert_job E job_data w)) = requests w"
proof -
  have "requests (snd (case JobPosting_init E k v of
                         (Inl e, w') \<Rightarrow> (Inl e, w')
                       | (Inr new_job, w') \<Rightarrow>
                           if duplicate_key new_job (store w') then (Inl DuplicateKeyError, w')
                           else (Inr new_job, w'\<lparr>store := store w' @ [new_job]\<rparr>)))
        = requests v" for k v
    using JobPosting_init_requests [of E k v]
    by (cases "JobPosting_init E k v") (auto split: sum.splits)
  then show ?thesis
    by (simp add: upsert_job_def utcnow_def Let_def split: option.splits prod.splits)
qed

lemma mapped_fields_requests: "requests (snd (mapped_fields E role label job w)) = requests w"
  by (auto simp add: mapped_fields_def Let_def utcnow_def split: sum.splits pyval.splits)

lemma map_job_requests: "requests (snd (map_job E role label job w)) = requests w"
proof (cases job)
  case (PDict d)
  obtain r w1 where m: "mapped_fields E role label d w = (r, w1)"
    by (cases "mapped_fields E role label d w")
  with mapped_fields_requests [of E role label d w] have "requests w1 = requests w" by simp
  with PDict m show ?thesis by (auto simp add: map_job_def split: sum.splits)
qed (simp_all add: map_job_def)

lemma process_job_requests: "requests (snd (process_job E C job collected w)) = requests w"
proof -
  obtain r w1 where m: "map_job E (role_label C) (search_location_label C) job w = (r, w1)"
    by (cases "map_job E (role_label C) (search_location_label C) job w")
  with map_job_requests [of E "role_label C" "search_location_label C" job w]
  have r1: "requests w1 = requests w" by simp
  have u: "requests (snd (case upsert_job E mapped w1 of
                     (Inl e, w'') \<Rightarrow> (Inr (Some collected), w'')
                   | (Inr saved, w'') \<Rightarrow> (Inr (Some (collected + 1)), w''))) = requests w" for mapped
    using upsert_job_requests [of E mapped w1] r1
    by (cases "upsert_job E mapped w1") (auto split: sum.splits)
  show ?thesis
    using m r1 u
    by (auto simp add: process_job_def split: sum.splits bool.splits option.splits)
qed

lemma job_loop_requests: "requests (snd (job_loop E C jobs collected w)) = requests w"
proof (induction jobs arbitrary: collected w)
  case Nil
  then show ?case by simp
next
  case (Cons job rest)
  obtain r w1 where p: "process_job E C job collected w = (r, w1)"
    by (cases "process_job E C job collected w")
  with process_job_requests [of E C job collected w] have "requests w1 = requests w" by simp
  with p Cons.IH show ?case by (auto split: sum.splits option.splits)
qed

lemma page_iteration_requests:
  "requests (snd (page_iteration E C st w))
     = requests (snd (search_jobs E (search_payload C (page st) (page_limit_of C st)) w))"
proof -
  obtain res w1 where s: "search_jobs E (search_payload C (page st) (page_limit_of C st)) w = (res, w1)"
    by (cases "search_jobs E (search_payload C (page st) (page_limit_of C st)) w")
  have j: "requests (snd (case job_loop E C jobs c w1 of
                            (Inl e, w2) \<Rightarrow> (Inl e, w2)
                          | (Inr collected, w2) \<Rightarrow> f collected w2)) = requests w1"
    if "\<And>collected w2. requests (snd (f collected w2)) = requests w2" for jobs c and f :: "int \<Rightarrow> world \<Rightarrow> (error + role_state step) \<times> world"
    using job_loop_requests [of E C jobs c w1] that
    by (cases "job_loop E C jobs c w1") (auto split: sum.splits)
  show ?thesis
    using s unfolding page_iteration_def page_limit_of_def [symmetric] Let_def
    by (auto simp add: j page_limit_of_def split: sum.splits pyval.splits)
qed

lemma search_payload_get:
  "dict_get (search_payload C p l) ''posted_at_max_age_days'' = PInt (max_age_days C) \<and>
   dict_has (search_payload C p l) ''posted_at_max_age_days'' \<and>
   dict_get (search_payload C p l) ''page'' = PInt p \<and>
   dict_has (search_payload C p l) ''page'' \<and>
   search_payload C p l \<noteq> []"
  by (simp add: search_payload_def Let_def dict_get_set dict_has_set dict_get_def dict_has_def
      dict_set_def)

lemma validate_search_payload: "validate_payload (search_payload C p l) = Inr ()"
  using search_payload_get [of C p l]
  by (simp add: validate_payload_def date_filter_keys_def)

lemma search_jobs_sent:
  assumes "validate_payload payload = Inr ()"
  shows "\<exists>k. requests (snd (search_jobs E payload w))
               = requests w @ replicate (Suc k) (''/v1/jobs/search'', pagination_defaults (cfg E) payload)"
proof -
  let ?sent = "pagination_defaults (cfg E) payload"
  obtain r w1 where pr: "post_with_retry E ''/v1/jobs/search'' ?sent w = (r, w1)"
    by (cases "post_with_retry E ''/v1/jobs/search'' ?sent w")
  then obtain k where rq: "requests w1 = requests w @ replicate (Suc k) (''/v1/jobs/search'', ?sent)"
    unfolding post_with_retry_def using retrying_requests by blast
  have "snd (search_jobs E payload w) = w1"
    using pr by (simp add: search_jobs_def assms split: sum.splits error.splits option.splits)
  with rq show ?thesis by blast
qed

lemma page_iteration_sent_pages:
  "\<exists>k. sent_pages w (snd (page_iteration E C st w)) = replicate (Suc k) (PInt (page st))"
proof -
  let ?p = "search_payload C (page st) (page_limit_of C st)"
  from search_jobs_sent [OF validate_search_payload, of E C "page st" "page_limit_of C st" w]
  obtain k where "requests (snd (search_jobs E ?p w))
               = requests w @ replicate (Suc k) (''/v1/jobs/search'', pagination_defaults (cfg E) ?p)"
    by blast
  moreover have "dict_get (pagination_defaults (cfg E) ?p) ''page'' = PInt (page st)"
    using search_payload_get [of C "page st" "page_limit_of C st"]
    by (simp add: pagination_defaults_def Let_def dict_get_setdefault)
  ultimately have "sent_pages w (snd (page_iteration E C st w)) = replicate (Suc k) (PInt (page st))"
    by (simp add: sent_pages_def new_requests_def page_iteration_requests map_replicate)
  then show ?thesis by blast
qed

text \<open>
  C6, amended. For an iteration of the page loop that raises nothing: it ends in
  \<open>Continue\<close> exactly when \<open>search_jobs\<close> returned a response, its data is not empty,
  the per-role limit has not been reached and \<open>has_more\<close> is not the value
  \<open>False\<close> (so also when the metadata omits \<open>has_more\<close>); then the loop goes on
  with the next page number, and its next iteration posts a request for that page.
  Otherwise it ends in \<open>Break\<close>, and the loop returns without a further request: on
  an error of \<open>search_jobs\<close>, on empty data, at the limit, and on \<open>has_more\<close>
  explicitly false.
\<close>

theorem pagination_stop_conditions:
  assumes lt: "total_collected st < per_role_limit C"
      and s: "search_jobs E (search_payload C (page st) (page_limit_of C st)) w = (res, w1)"
      and it: "page_iteration E C st w = (Inr outcome, w')"
  shows "((\<exists>st'. outcome = Continue st') \<longleftrightarrow>
           (\<exists>response. res = Inr response \<and> truthy (response_data response) \<and>
              total_collected (state_of outcome) < per_role_limit C \<and>
              has_more_of response \<noteq> PBool False)) \<and>
         (\<forall>st'. outcome = Break st' \<longrightarrow> while_pages (Suc fuel) E C st w = Some (Inr st', w')) \<and>
         (\<forall>st'. outcome = Continue st' \<longrightarrow>
            page st' = page st + 1 \<and>
            while_pages (Suc fuel) E C st w = while_pages fuel E C st' w' \<and>
            (\<exists>k. sent_pages w' (snd (page_iteration E C st' w')) = replicate (Suc k) (PInt (page st + 1))))"
proof -
  note c = page_iteration_cases [OF s it]
  have b: "\<forall>st'. outcome = Break st' \<longrightarrow> while_pages (Suc fuel) E C st w = Some (Inr st', w')"
    using lt it by (simp add: while_pages.simps [of "Suc fuel"])
  have "page st' = page st + 1 \<and>
        while_pages (Suc fuel) E C st w = while_pages fuel E C st' w' \<and>
        (\<exists>k. sent_pages w' (snd (page_iteration E C st' w')) = replicate (Suc k) (PInt (page st + 1)))"
    if o: "outcome = Continue st'" for st'
  proof -
    from c o have p: "page st' = page st + 1" by blast
    have "while_pages (Suc fuel) E C st w = while_pages fuel E C st' w'"
      using lt it o by (simp add: while_pages.simps [of "Suc fuel"])
    with p page_iteration_sent_pages [of w' E C st'] show ?thesis by simp
  qed
  with c b show ?thesis by blast
qed

theorem unidentifiable_posting_rejected_witness:
  "mapped_fields env_200 (role_label backend_ctx) (search_location_label backend_ctx) anonymous_job world0
     = (Inr (projr (fst (mapped_fields env_200 ''Backend Developer'' ''India'' anonymous_job world0))),
        world0\<lparr>ticks := 1\<rparr>) \<and>
   \<not> truthy (dict_get (projr (fst (mapped_fields env_200 ''Backend Developer'' ''India'' anonymous_job world0))) ''job_id'') \<and>
   \<not> truthy (dict_get (projr (fst (mapped_fields env_200 ''Backend Developer'' ''India'' anonymous_job world0))) ''url'') \<and>
   map_job env_200 (role_label backend_ctx) (search_location_label backend_ctx) (PDict anonymous_job) world0
     = (Inr None, world0\<lparr>ticks := 1\<rparr>) \<and>
   fst (process_job env_200 backend_ctx (PDict anonymous_job) 0 world0) = Inr None \<and>
   store (snd (process_job env_200 backend_ctx (PDict anonymous_job) 0 world0)) = store world0"
proof -
  let ?m = "projr (fst (mapped_fields env_200 ''Backend Developer'' ''India'' anonymous_job world0))"
  have h1: "mapped_fields env_200 (role_label backend_ctx) (search_location_label backend_ctx) anonymous_job world0
     = (Inr ?m, world0\<lparr>ticks := 1\<rparr>)"
    by code_simp
  have h2: "\<not> truthy (dict_get ?m ''job_id'')" by code_simp
  have h3: "\<not> truthy (dict_get ?m ''url'')" by code_simp
  have v: "fst (process_job env_200 backend_ctx (PDict anonymous_job) 0 world0) = Inr None"
    by code_simp
  from unidentifiable_posting_rejected [OF h1 h2 h3, of 0] h1 h2 h3 v show ?thesis by blast
qed

text \<open>
  C6, as the specification states it, fails: the loop breaks on \<open>has_more is False\<close>
  only. The first page below carries one posting and metadata without \<open>has_more\<close>;
  the iteration ends in \<open>Continue\<close> with page 2, and the collection posts a second
  request, for page 2.
\<close>

theorem pagination_continues_without_has_more:
  "has_more_of (PDict [(''data'', PList [upstream_job]), (''metadata'', PDict [])]) = PNone \<and>
   fst (search_jobs (paged_env [upstream_job] []) (search_payload backend_ctx 1 10) world0)
     = Inr (PDict [(''data'', PList [upstream_job]), (''metadata'', PDict [])]) \<and>
   fst (page_iteration (paged_env [upstream_job] []) backend_ctx first_page world0)
     = Inr (Continue \<lparr> total_collected = 1, total_pages = 1, total_credits_used = 0, page = 2 \<rparr>) \<and>
   sent_pages world0
     (snd (the (collect_jobs_for_roles 5 (paged_env [upstream_job] []) [''Backend Developer''] [''India''] 14 10 world0)))
     = [PInt 1, PInt 2]"
  by code_simp

theorem pagination_stop_conditions_witness:
  "total_collected first_page < per_role_limit backend_ctx \<and>
   search_jobs (paged_env [upstream_job] []) (search_payload backend_ctx (page first_page) (page_limit_of backend_ctx first_page)) world0
     = (fst (search_jobs (paged_env [upstream_job] []) (search_payload backend_ctx 1 10) world0),
        snd (search_jobs (paged_env [upstream_job] []) (search_payload backend_ctx 1 10) world0)) \<and>
   page_iteration (paged_env [upstream_job] []) backend_ctx first_page world0
     = (Inr (Continue \<lparr> total_collected = 1, total_pages = 1, total_credits_used = 0, page = 2 \<rparr>),
        snd (page_iteration (paged_env [upstream_job] []) backend_ctx first_page world0)) \<and>
   (\<exists>response. fst (search_jobs (paged_env [upstream_job] []) (search_payload backend_ctx 1 10) world0) = Inr response \<and>
      truthy (response_data response) \<and> has_more_of response \<noteq> PBool False) \<and>
   while_pages (Suc 4) (paged_env [upstream_job] []) backend_ctx first_page world0
     = while_pages 4 (paged_env [upstream_job] []) backend_ctx
         \<lparr> total_collected = 1, total_pages = 1, total_credits_used = 0, page = 2 \<rparr>
         (snd (page_iteration (paged_env [upstream_job] []) backend_ctx first_page world0)) \<and>
   page_iteration (paged_env [upstream_job] [(''has_more'', PBool False)]) backend_ctx first_page world0
     = (Inr (Break \<lparr> total_collected = 1, total_pages = 1, total_credits_used = 0, page = 1 \<rparr>),
        snd (page_iteration (paged_env [upstream_job] [(''has_more'', PBool False)]) backend_ctx first_page world0)) \<and>
   while_pages (Suc 4) (paged_env [upstream_job] [(''has_more'', PBool False)]) backend_ctx first_page world0
     = Some (Inr \<lparr> total_collected = 1, total_pages = 1, total_credits_used = 0, page = 1 \<rparr>,
             snd (page_iteration (paged_env [upstream_job] [(''has_more'', PBool False)]) backend_ctx first_page world0))"
proof -
  let ?E = "paged_env [upstream_job] []"
  let ?F = "paged_env [upstream_job] [(''has_more'', PBool False)]"
  let ?st' = "\<lparr> total_collected = 1, total_pages = 1, total_credits_used = 0, page = 2 \<rparr>"
  let ?sb = "\<lparr> total_collected = 1, total_pages = 1, total_credits_used = 0, page = 1 \<rparr>"
  have lt: "total_collected first_page < per_role_limit backend_ctx" by code_simp
  have s: "search_jobs ?E (search_payload backend_ctx (page first_page) (page_limit_of backend_ctx first_page)) world0
     = (fst (search_jobs ?E (search_payload backend_ctx 1 10) world0),
        snd (search_jobs ?E (search_payload backend_ctx 1 10) world0))"
    by code_simp
  have it: "page_iteration ?E backend_ctx first_page world0
     = (Inr (Continue ?st'), snd (page_iteration ?E backend_ctx first_page world0))"
    by code_simp
  have sF: "search_jobs ?F (search_payload backend_ctx (page first_page) (page_limit_of backend_ctx first_page)) world0
     = (fst (search_jobs ?F (search_payload backend_ctx 1 10) world0),
        snd (search_jobs ?F (search_payload backend_ctx 1 10) world0))"
    by code_simp
  have itF: "page_iteration ?F backend_ctx first_page world0
     = (Inr (Break ?sb), snd (page_iteration ?F backend_ctx first_page world0))"
    by code_simp
  note t = pagination_stop_conditions [OF lt s it, of 4]
  note tF = pagination_stop_conditions [OF lt sF itF, of 4]
  from t have a: "\<exists>response. fst (search_jobs ?E (search_payload backend_ctx 1 10) world0) = Inr response \<and>
      truthy (response_data response) \<and> has_more_of response \<noteq> PBool False"
    by blast
  from t have b: "while_pages (Suc 4) ?E backend_ctx first_page world0
     = while_pages 4 ?E backend_ctx ?st' (snd (page_iteration ?E backend_ctx first_page world0))"
    by blast
  from tF have c: "while_pages (Suc 4) ?F backend_ctx first_page world0
     = Some (Inr ?sb, snd (page_iteration ?F backend_ctx first_page world0))"
    by blast
  from lt s it a b itF c show ?thesis by blast
qed

section \<open>Properties of get_role_required_skills\<close>
















text \<open>
  C10. The guard on technology slugs is global. On a call that is not answered from the
  cache, when every posting of the collection has no \<open>technology_slugs\<close> field or an
  empty one, the result is the empty list, whatever postings match the role and the
  window: the aggregation and the threshold filter are not reached, and nothing is
  written to the cache. The only effect is the reading of the clock.
\<close>

theorem no_slugs_anywhere_gives_empty:
  assumes miss: "cache (py_lower role, days, threshold) = None"
      and none: "list_all (\<lambda>doc. map_of doc ''technology_slugs'' = None \<or>
                                 map_of doc ''technology_slugs'' = Some (PList [])) (store w)"
  shows "get_role_required_skills F E role days threshold cache w
           = ([], cache, w\<lparr>ticks := ticks w + 1\<rparr>)"
proof -
  have "\<not> has_technology_slugs doc" if "doc \<in> set (store w)" for doc
    using none that by (auto simp add: list_all_iff has_technology_slugs_def)
  then have "filter has_technology_slugs (store w) = []"
    by (simp add: filter_empty_conv)
  then show ?thesis
    using miss by (simp add: get_role_required_skills_def utcnow_def Let_def)
qed


text \<open>
  Two postings match the role and the window, none carries a slug: the result is empty.
\<close>

theorem no_slugs_anywhere_gives_empty_witness:
  "no_cache (py_lower ''Backend Developer'', 30, 1 / 4) = None \<and>
   list_all (\<lambda>doc. map_of doc ''technology_slugs'' = None \<or>
                    map_of doc ''technology_slugs'' = Some (PList [])) (store untagged_world) \<and>
   length (role_postings env_200 ''Backend Developer'' 30 untagged_world) = 2 \<and>
   get_role_required_skills rat_ops env_200 ''Backend Developer'' 30 (1 / 4) no_cache untagged_world
     = ([], no_cache, untagged_world\<lparr>ticks := ticks untagged_world + 1\<rparr>)"
proof -
  have h1: "no_cache (py_lower ''Backend Developer'', 30, 1 / 4) = None"
    by (simp add: no_cache_def)
  have h2: "list_all (\<lambda>doc. map_of doc ''technology_slugs'' = None \<or>
                    map_of doc ''technology_slugs'' = Some (PList [])) (store untagged_world)"
    by code_simp
  have m: "length (role_postings env_200 ''Backend Developer'' 30 untagged_world) = 2"
    by code_simp
  note t = no_slugs_anywhere_gives_empty [where cache = no_cache and role = "''Backend Developer''" and days = 30
      and threshold = "1 / 4" and w = untagged_world and F = rat_ops and E = env_200, OF h1 h2]
  from h1 h2 m t show ?thesis by blast
qed

end
